theory Spec2Isabelle
  imports Main
begin

section \<open>Python values and exceptions\<close>

text \<open>
  The program is one Python script, \<^verbatim>\<open>app.py\<close>, that wires a Pathway dataflow at
  import time and then starts the engine. Its statements are embedded as functions on a
  record of the module's global variables; the library calls it makes are parameters of the
  model (an environment says, for each call site, whether the call raises).

  Only the exception classes the script names or can meet are listed. \<open>KeyboardInterrupt\<close>
  and \<open>SystemExit\<close> derive from \<open>BaseException\<close> only, so \<^verbatim>\<open>except Exception\<close> lets them
  through.
\<close>

datatype exc_class =
    BaseException | KeyboardInterrupt | SystemExit
  | Exception | TypeError | ValueError | RuntimeError | IndexError | KeyError
  | NameError | OSError | ImportError | AttributeError

datatype py_exc = Exc (exc_cls: exc_class) (exc_msg: string)

fun is_Exception :: "exc_class \<Rightarrow> bool" where
  "is_Exception BaseException = False"
| "is_Exception KeyboardInterrupt = False"
| "is_Exception SystemExit = False"
| "is_Exception _ = True"

definition is_TypeError :: "exc_class \<Rightarrow> bool" where
  "is_TypeError c = (c = TypeError)"

datatype pyval =
    Str string
  | Num int
  | NoneVal
  | Tuple "pyval list"
  | List "pyval list"
  | Dict "(string \<times> pyval) list"

text \<open>\<^verbatim>\<open>isinstance(v, tuple)\<close>.\<close>

fun isinstance_tuple :: "pyval \<Rightarrow> bool" where
  "isinstance_tuple (Tuple _) = True"
| "isinstance_tuple _ = False"

text \<open>\<^verbatim>\<open>v[0]\<close> on a tuple: the empty tuple raises IndexError.\<close>

fun tuple_first :: "pyval list \<Rightarrow> py_exc + pyval" where
  "tuple_first [] = Inl (Exc IndexError ''tuple index out of range'')"
| "tuple_first (x # _) = Inr x"

text \<open>
  \<^verbatim>\<open>str(v)\<close>: a \<open>str\<close> is returned as it is; every other value is rendered by its
  \<open>__repr__\<close>, which is Python's and is taken as a parameter. Rendering can raise (an
  integer beyond the digit limit raises ValueError, a container nested too deep raises
  RecursionError), and then so does \<open>str\<close>.
\<close>

fun str_builtin :: "(pyval \<Rightarrow> py_exc + string) \<Rightarrow> pyval \<Rightarrow> py_exc + pyval" where
  "str_builtin rp (Str s) = Inr (Str s)"
| "str_builtin rp v = (case rp v of Inl e \<Rightarrow> Inl e | Inr s \<Rightarrow> Inr (Str s))"

section \<open>The lambdas of the script\<close>

text \<open>Line 74: \<^verbatim>\<open>lambda body: body[0] if isinstance(body, tuple) else body\<close>.\<close>

fun extract_body :: "pyval \<Rightarrow> py_exc + pyval" where
  "extract_body (Tuple xs) = tuple_first xs"
| "extract_body v = Inr v"

text \<open>Line 105: \<^verbatim>\<open>lambda chunk: chunk[0] if isinstance(chunk, tuple) else chunk\<close>.\<close>

fun extract_chunk :: "pyval \<Rightarrow> py_exc + pyval" where
  "extract_chunk (Tuple xs) = tuple_first xs"
| "extract_chunk v = Inr v"

text \<open>Lines 147 and 157: \<^verbatim>\<open>lambda text: text[0] if isinstance(text, tuple) else str(text)\<close>.\<close>

fun extract_data :: "(pyval \<Rightarrow> py_exc + string) \<Rightarrow> pyval \<Rightarrow> py_exc + pyval" where
  "extract_data rp (Tuple xs) = tuple_first xs"
| "extract_data rp v = str_builtin rp v"

text \<open>Line 149: \<^verbatim>\<open>lambda headline: {"headline": str(headline)}\<close>.\<close>

definition make_metadata :: "(pyval \<Rightarrow> py_exc + string) \<Rightarrow> pyval \<Rightarrow> py_exc + pyval" where
  "make_metadata rp headline =
     (case str_builtin rp headline of
        Inl e \<Rightarrow> Inl e
      | Inr h \<Rightarrow> Inr (Dict [(''headline'', h)]))"

section \<open>Tables\<close>

text \<open>
  A row maps column names to values. A Pathway table is built lazily: the script only
  describes it, and rows flow through once the engine runs. \<open>select\<close> and \<open>flatten\<close>
  work row by row, so a table is modelled by its column names and by the rows it derives
  from one record of the input stream; a lambda that raises on a row makes that derivation
  fail.
\<close>

type_synonym row = "(string \<times> pyval) list"

type_synonym col_expr = "row \<Rightarrow> py_exc + pyval"

record table =
  columns :: "string list"
  derive :: "row \<Rightarrow> py_exc + row list"

text \<open>\<^verbatim>\<open>pw.this.c\<close>.\<close>

definition pw_this :: "string \<Rightarrow> col_expr" where
  "pw_this c r = (case map_of r c of
      None \<Rightarrow> Inl (Exc KeyError c)
    | Some v \<Rightarrow> Inr v)"

text \<open>\<^verbatim>\<open>pw.apply(f, e)\<close>.\<close>

definition pw_apply :: "(pyval \<Rightarrow> py_exc + pyval) \<Rightarrow> col_expr \<Rightarrow> col_expr" where
  "pw_apply f e r = (case e r of Inl x \<Rightarrow> Inl x | Inr v \<Rightarrow> f v)"

fun eval_cols :: "(string \<times> col_expr) list \<Rightarrow> row \<Rightarrow> py_exc + row" where
  "eval_cols [] r = Inr []"
| "eval_cols ((c, e) # cs) r =
     (case e r of
        Inl x \<Rightarrow> Inl x
      | Inr v \<Rightarrow> (case eval_cols cs r of Inl x \<Rightarrow> Inl x | Inr rest \<Rightarrow> Inr ((c, v) # rest)))"

fun map_rows :: "(row \<Rightarrow> py_exc + row list) \<Rightarrow> row list \<Rightarrow> py_exc + row list" where
  "map_rows f [] = Inr []"
| "map_rows f (r # rs) =
     (case f r of
        Inl x \<Rightarrow> Inl x
      | Inr out \<Rightarrow> (case map_rows f rs of Inl x \<Rightarrow> Inl x | Inr rest \<Rightarrow> Inr (out @ rest)))"

text \<open>\<^verbatim>\<open>t.select(c1=e1, ...)\<close>: one output row for each row of \<open>t\<close>.\<close>

definition pw_select :: "(string \<times> col_expr) list \<Rightarrow> table \<Rightarrow> table" where
  "pw_select cs t =
     \<lparr>columns = map fst cs,
      derive = (\<lambda>src. case derive t src of
          Inl x \<Rightarrow> Inl x
        | Inr rs \<Rightarrow> map_rows (\<lambda>r. case eval_cols cs r of Inl x \<Rightarrow> Inl x | Inr r' \<Rightarrow> Inr [r']) rs)\<rparr>"

text \<open>
  \<^verbatim>\<open>t.flatten(pw.this.c)\<close>: one output row for each element of the sequence in column
  \<open>c\<close>, the other columns repeated.
\<close>

fun set_col :: "string \<Rightarrow> pyval \<Rightarrow> row \<Rightarrow> row" where
  "set_col c v [] = []"
| "set_col c v ((k, w) # r) = (if k = c then (k, v) # r else (k, w) # set_col c v r)"

definition flatten_row :: "string \<Rightarrow> row \<Rightarrow> py_exc + row list" where
  "flatten_row c r = (case map_of r c of
      None \<Rightarrow> Inl (Exc KeyError c)
    | Some (List xs) \<Rightarrow> Inr (map (\<lambda>x. set_col c x r) xs)
    | Some (Tuple xs) \<Rightarrow> Inr (map (\<lambda>x. set_col c x r) xs)
    | Some _ \<Rightarrow> Inl (Exc TypeError ''cannot flatten''))"

definition pw_flatten :: "string \<Rightarrow> table \<Rightarrow> table" where
  "pw_flatten c t =
     \<lparr>columns = columns t,
      derive = (\<lambda>src. case derive t src of
          Inl x \<Rightarrow> Inl x
        | Inr rs \<Rightarrow> map_rows (flatten_row c) rs)\<rparr>"

section \<open>Library objects\<close>

text \<open>Lines 59 to 69: the schema and the arguments of \<^verbatim>\<open>pw.io.jsonlines.read\<close>.\<close>

definition NewsArticleSchema :: "string list" where
  "NewsArticleSchema = [''headline'', ''body'']"

record reader =
  r_path :: string
  r_schema :: "string list"
  r_mode :: string
  autocommit_duration_ms :: int

text \<open>The table a reader yields: every record of the stream is one row.\<close>

definition stream_table :: "reader \<Rightarrow> table" where
  "stream_table rd = \<lparr>columns = r_schema rd, derive = (\<lambda>src. Inr [src])\<rparr>"

record splitter_obj =
  min_tokens :: int
  max_tokens :: int
  encoding_name :: string

record embedder_obj =
  e_model :: string
  show_progress_bar :: bool

datatype knn_metric = COS | L2SQ

record knn_factory_obj =
  reserved_space :: int
  knn_embedder :: embedder_obj
  metric :: knn_metric
  dimensions :: int

record document_store_obj =
  docs :: table
  retriever_factory :: knn_factory_obj

record server_obj =
  s_host :: string
  s_port :: int
  s_document_store :: document_store_obj

datatype parser_class = UnstructuredParserClass | ParseUnstructuredClass

datatype served_by = ByRun | ByServe

section \<open>The environment\<close>

text \<open>
  Every call into Pathway, \<open>sentence-transformers\<close> or the standard library that the script
  makes, by source line. The environment says which of them raise, and what.
\<close>

datatype call_site =
    Call_jsonlines_read           \<comment> \<open>line 64\<close>
  | Call_select_documents         \<comment> \<open>line 73\<close>
  | Call_TokenCountSplitter       \<comment> \<open>line 94\<close>
  | Call_select_split             \<comment> \<open>line 97\<close>
  | Call_flatten                  \<comment> \<open>line 104\<close>
  | Call_select_chunks            \<comment> \<open>line 104\<close>
  | Call_SentenceTransformerEmbedder \<comment> \<open>line 118\<close>
  | Call_get_embedding_dimension  \<comment> \<open>line 124\<close>
  | Call_BruteForceKnnFactory     \<comment> \<open>line 131\<close>
  | Call_select_docs_metadata     \<comment> \<open>line 146\<close>
  | Call_select_docs_data         \<comment> \<open>line 156\<close>
  | Call_DocumentStore            \<comment> \<open>line 166\<close>
  | Call_DocumentStoreServer      \<comment> \<open>line 176\<close>
  | Call_server_run               \<comment> \<open>line 180\<close>
  | Call_server_serve             \<comment> \<open>line 183\<close>
  | Call_pw_run                   \<comment> \<open>line 191\<close>

record env =
  import_UnstructuredParser :: bool       \<comment> \<open>line 9 succeeds\<close>
  import_ParseUnstructured :: bool        \<comment> \<open>line 12 succeeds\<close>
  import_TokenCountSplitter :: bool       \<comment> \<open>line 19 succeeds\<close>
  import_SentenceTransformerEmbedder :: bool \<comment> \<open>line 25 succeeds\<close>
  environ :: "string \<Rightarrow> string option"    \<comment> \<open>\<open>os.environ\<close>\<close>
  int_builtin :: "string \<Rightarrow> py_exc + int"   \<comment> \<open>\<open>int\<close> on a \<open>str\<close>\<close>
  raises :: "call_site \<Rightarrow> py_exc option"
  embedding_dimension :: int              \<comment> \<open>what \<open>get_embedding_dimension\<close> returns\<close>
  split_text :: "splitter_obj \<Rightarrow> pyval \<Rightarrow> py_exc + pyval" \<comment> \<open>the splitter applied to a text\<close>
  repr_builtin :: "pyval \<Rightarrow> py_exc + string" \<comment> \<open>\<open>repr\<close>\<close>

section \<open>Module globals and statements\<close>

datatype logger = RootLogger | PathwayRag

datatype level = INFO | WARNING

datatype log_arg = AStr string | AInt int | AExc py_exc | ASchema "string list"

datatype log_record = LogRecord logger level string "log_arg list"

text \<open>
  The module's global variables. A pipeline object is \<open>None\<close> until its assignment has
  run. \<open>raised\<close> holds the exception that is propagating, if any; \<open>served\<close> and
  \<open>engine_started\<close> record that the server's and the engine's calls returned.
\<close>

record globals =
  UnstructuredParser :: "parser_class option"
  TokenCountSplitter :: bool
  SentenceTransformerEmbedder :: bool
  DATA_FILE :: string
  HOST :: string
  PORT :: int
  SENTENCE_TRANSFORMERS_MODEL :: string
  news_stream :: "reader option"
  documents :: "table option"
  chunks :: "table option"
  splitter :: "splitter_obj option"
  chunks_with_split :: "table option"
  embedder :: "embedder_obj option"
  emb_dim :: "int option"
  knn_factory :: "knn_factory_obj option"
  docs_for_store :: "table option"
  document_store :: "document_store_obj option"
  server :: "server_obj option"
  served :: "served_by option"
  engine_started :: bool
  log_records :: "log_record list"
  raised :: "py_exc option"

definition init :: globals where
  "init = \<lparr>UnstructuredParser = None, TokenCountSplitter = False,
     SentenceTransformerEmbedder = False, DATA_FILE = [], HOST = [], PORT = 0,
     SENTENCE_TRANSFORMERS_MODEL = [], news_stream = None, documents = None, chunks = None,
     splitter = None, chunks_with_split = None, embedder = None, emb_dim = None,
     knn_factory = None, docs_for_store = None, document_store = None, server = None,
     served = None, engine_started = False, log_records = [], raised = None\<rparr>"

type_synonym stmt = "globals \<Rightarrow> globals"

definition raise :: "py_exc \<Rightarrow> stmt" where
  "raise e s = s\<lparr>raised := Some e\<rparr>"

definition emit :: "logger \<Rightarrow> level \<Rightarrow> string \<Rightarrow> (globals \<Rightarrow> log_arg list) \<Rightarrow> stmt" where
  "emit lg lv msg args s = s\<lparr>log_records := log_records s @ [LogRecord lg lv msg (args s)]\<rparr>"

text \<open>Statements in sequence: the first one that raises ends the block.\<close>

fun block :: "stmt list \<Rightarrow> stmt" where
  "block [] s = s"
| "block (c # cs) s = (let s' = c s in if raised s' = None then block cs s' else s')"

text \<open>
  \<^verbatim>\<open>try: body  except C as e: handler\<close>. What the body assigned before raising stays
  assigned; an exception outside class \<open>C\<close> keeps propagating.
\<close>

definition try_except :: "stmt \<Rightarrow> (exc_class \<Rightarrow> bool) \<Rightarrow> (py_exc \<Rightarrow> stmt) \<Rightarrow> stmt" where
  "try_except body catches handler s =
     (let s' = body s in
      case raised s' of
        None \<Rightarrow> s'
      | Some e \<Rightarrow> if catches (exc_cls e) then handler e (s'\<lparr>raised := None\<rparr>) else s')"

text \<open>A library call: it raises what the environment says, or else has its effect.\<close>

definition call :: "env \<Rightarrow> call_site \<Rightarrow> stmt \<Rightarrow> stmt" where
  "call ev site effect s = (case raises ev site of Some e \<Rightarrow> raise e s | None \<Rightarrow> effect s)"

text \<open>\<^verbatim>\<open>if b: c1  else: c2\<close>, and the empty statement.\<close>

definition cond :: "(globals \<Rightarrow> bool) \<Rightarrow> stmt \<Rightarrow> stmt \<Rightarrow> stmt" where
  "cond b c1 c2 s = (if b s then c1 s else c2 s)"

definition skip :: stmt where
  "skip s = s"

text \<open>Reading a global variable that is not bound yet raises NameError.\<close>

definition reading :: "(globals \<Rightarrow> 'a option) \<Rightarrow> string \<Rightarrow> ('a \<Rightarrow> stmt) \<Rightarrow> stmt" where
  "reading var name k s = (case var s of
      None \<Rightarrow> raise (Exc NameError name) s
    | Some v \<Rightarrow> k v s)"

section \<open>The script\<close>

subsection \<open>Lines 8 to 28: the guarded imports\<close>

definition import_parser :: "env \<Rightarrow> stmt" where
  "import_parser ev =
     cond (\<lambda>_. import_UnstructuredParser ev)
       (\<lambda>s. s\<lparr>UnstructuredParser := Some UnstructuredParserClass\<rparr>)
       (cond (\<lambda>_. import_ParseUnstructured ev)
         (block
           [\<lambda>s. s\<lparr>UnstructuredParser := Some ParseUnstructuredClass\<rparr>,
            emit RootLogger WARNING ''Using deprecated ParseUnstructured as UnstructuredParser.''
              (\<lambda>_. [])])
         (block
           [\<lambda>s. s\<lparr>UnstructuredParser := None\<rparr>,
            emit RootLogger WARNING ''UnstructuredParser not available in this Pathway build.''
              (\<lambda>_. [])]))"

definition import_splitter :: "env \<Rightarrow> stmt" where
  "import_splitter ev =
     cond (\<lambda>_. import_TokenCountSplitter ev)
       (\<lambda>s. s\<lparr>TokenCountSplitter := True\<rparr>)
       (block
         [\<lambda>s. s\<lparr>TokenCountSplitter := False\<rparr>,
          emit RootLogger WARNING
            ''TokenCountSplitter not found in pathway.xpacks.llm.splitters; check your package version.''
            (\<lambda>_. [])])"

definition import_embedder :: "env \<Rightarrow> stmt" where
  "import_embedder ev =
     cond (\<lambda>_. import_SentenceTransformerEmbedder ev)
       (\<lambda>s. s\<lparr>SentenceTransformerEmbedder := True\<rparr>)
       (block
         [\<lambda>s. s\<lparr>SentenceTransformerEmbedder := False\<rparr>,
          emit RootLogger WARNING ''SentenceTransformerEmbedder not present in this Pathway build.''
            (\<lambda>_. [])])"

definition imports_section :: "env \<Rightarrow> stmt" where
  "imports_section ev = block [import_parser ev, import_splitter ev, import_embedder ev]"

subsection \<open>Lines 37 to 40: configuration\<close>

text \<open>\<^verbatim>\<open>os.getenv(key, default)\<close>.\<close>

definition getenv :: "env \<Rightarrow> string \<Rightarrow> string \<Rightarrow> string" where
  "getenv ev key dflt = (case environ ev key of None \<Rightarrow> dflt | Some v \<Rightarrow> v)"

definition configuration :: "env \<Rightarrow> stmt" where
  "configuration ev = block
     [\<lambda>s. s\<lparr>DATA_FILE := getenv ev ''DATA_FILE'' ''./feed.jsonl''\<rparr>,
      \<lambda>s. s\<lparr>HOST := getenv ev ''HOST'' ''0.0.0.0''\<rparr>,
      (case int_builtin ev (getenv ev ''PORT'' ''8000'') of
         Inl e \<Rightarrow> raise e
       | Inr p \<Rightarrow> (\<lambda>s. s\<lparr>PORT := p\<rparr>)),
      \<lambda>s. s\<lparr>SENTENCE_TRANSFORMERS_MODEL :=
              getenv ev ''SENTENCE_TRANSFORMERS_MODEL'' ''all-MiniLM-L6-v2''\<rparr>]"

subsection \<open>Lines 49 to 53: the embedder is required\<close>

definition ensure_dependencies :: stmt where
  "ensure_dependencies =
     cond (\<lambda>s. \<not> SentenceTransformerEmbedder s)
       (raise (Exc RuntimeError
          (''SentenceTransformerEmbedder not available. '' @
           ''Install 'sentence-transformers' and use a Pathway build with the LLM xpack.'')))
       skip"

subsection \<open>Lines 63 to 78: the stream and the documents table\<close>

definition documents_columns :: "(string \<times> col_expr) list" where
  "documents_columns =
     [(''text'', pw_apply extract_body (pw_this ''body'')),
      (''headline'', pw_this ''headline'')]"

definition read_input :: "env \<Rightarrow> stmt" where
  "read_input ev = block
     [emit PathwayRag INFO ''Reading JSONL data from {DATA_FILE}'' (\<lambda>s. [AStr (DATA_FILE s)]),
      call ev Call_jsonlines_read
        (\<lambda>s. s\<lparr>news_stream := Some \<lparr>r_path = DATA_FILE s, r_schema = NewsArticleSchema,
                 r_mode = ''streaming'', autocommit_duration_ms = 500\<rparr>\<rparr>),
      reading news_stream ''news_stream'' (\<lambda>ns.
        call ev Call_select_documents
          (\<lambda>s. s\<lparr>documents := Some (pw_select documents_columns (stream_table ns))\<rparr>)),
      emit PathwayRag INFO ''Documents table created with columns: text, headline'' (\<lambda>_. [])]"

subsection \<open>Lines 85 and 86: no parsing\<close>

definition parser_section :: stmt where
  "parser_section = block
     [emit PathwayRag INFO ''Using raw bodies as chunks (no parsing)'' (\<lambda>_. []),
      reading documents ''documents'' (\<lambda>d s. s\<lparr>chunks := Some d\<rparr>)]"

subsection \<open>Lines 91 to 113: the token splitter\<close>

definition split_columns :: "env \<Rightarrow> splitter_obj \<Rightarrow> (string \<times> col_expr) list" where
  "split_columns ev sp =
     [(''chunk'', pw_apply (split_text ev sp) (pw_this ''text'')),
      (''headline'', pw_this ''headline'')]"

definition chunk_columns :: "(string \<times> col_expr) list" where
  "chunk_columns =
     [(''text'', pw_apply extract_chunk (pw_this ''chunk'')),
      (''headline'', pw_this ''headline'')]"

definition splitter_try :: "env \<Rightarrow> stmt" where
  "splitter_try ev = block
     [emit PathwayRag INFO ''Attempting to use TokenCountSplitter'' (\<lambda>_. []),
      call ev Call_TokenCountSplitter
        (\<lambda>s. s\<lparr>splitter := Some \<lparr>min_tokens = 50, max_tokens = 400,
                 encoding_name = ''cl100k_base''\<rparr>\<rparr>),
      reading splitter ''splitter'' (\<lambda>sp. reading chunks ''chunks'' (\<lambda>c.
        call ev Call_select_split
          (\<lambda>s. s\<lparr>chunks_with_split := Some (pw_select (split_columns ev sp) c)\<rparr>))),
      reading chunks_with_split ''chunks_with_split'' (\<lambda>cw.
        call ev Call_flatten (call ev Call_select_chunks
          (\<lambda>s. s\<lparr>chunks := Some (pw_select chunk_columns (pw_flatten ''chunk'' cw))\<rparr>))),
      emit PathwayRag INFO ''TokenCountSplitter applied successfully'' (\<lambda>_. [])]"

definition splitter_except :: "py_exc \<Rightarrow> stmt" where
  "splitter_except e = block
     [emit PathwayRag WARNING ''TokenCountSplitter failed: {e}. Using full bodies as chunks.''
        (\<lambda>_. [AExc e]),
      reading documents ''documents'' (\<lambda>d s. s\<lparr>chunks := Some d\<rparr>)]"

definition splitter_section :: "env \<Rightarrow> stmt" where
  "splitter_section ev =
     cond TokenCountSplitter
       (try_except (splitter_try ev) is_Exception splitter_except)
       (emit PathwayRag INFO ''TokenCountSplitter not present; using full bodies as chunks''
          (\<lambda>_. []))"

subsection \<open>Lines 118 to 136: the embedder, its dimension, the index factory\<close>

definition embedding_setup :: "env \<Rightarrow> stmt" where
  "embedding_setup ev = block
     [call ev Call_SentenceTransformerEmbedder
        (\<lambda>s. s\<lparr>embedder := Some \<lparr>e_model = SENTENCE_TRANSFORMERS_MODEL s,
                 show_progress_bar = False\<rparr>\<rparr>),
      try_except
        (block
          [reading embedder ''embedder'' (\<lambda>_.
             call ev Call_get_embedding_dimension
               (\<lambda>s. s\<lparr>emb_dim := Some (embedding_dimension ev)\<rparr>)),
           reading emb_dim ''emb_dim'' (\<lambda>d.
             emit PathwayRag INFO ''Embedder dimension: {emb_dim}'' (\<lambda>_. [AInt d]))])
        is_Exception
        (\<lambda>e. block
          [emit PathwayRag WARNING ''Could not detect embed dimension: {e}. Defaulting to 384.''
             (\<lambda>_. [AExc e]),
           \<lambda>s. s\<lparr>emb_dim := Some 384\<rparr>])]"

definition knn_setup :: "env \<Rightarrow> stmt" where
  "knn_setup ev =
     reading embedder ''embedder'' (\<lambda>em. reading emb_dim ''emb_dim'' (\<lambda>d.
       call ev Call_BruteForceKnnFactory
         (\<lambda>s. s\<lparr>knn_factory := Some \<lparr>reserved_space = 1000, knn_embedder = em,
                  metric = COS, dimensions = d\<rparr>\<rparr>)))"

subsection \<open>Lines 141 to 160: the rows handed to the document store\<close>

definition docs_columns :: "env \<Rightarrow> (string \<times> col_expr) list" where
  "docs_columns ev =
     [(''data'', pw_apply (extract_data (repr_builtin ev)) (pw_this ''text'')),
      (''_metadata'', pw_apply (make_metadata (repr_builtin ev)) (pw_this ''headline''))]"

definition data_only_columns :: "env \<Rightarrow> (string \<times> col_expr) list" where
  "data_only_columns ev =
     [(''data'', pw_apply (extract_data (repr_builtin ev)) (pw_this ''text''))]"

definition prepare_docs :: "env \<Rightarrow> stmt" where
  "prepare_docs ev = block
     [reading chunks ''chunks'' (\<lambda>c.
        emit PathwayRag INFO ''Chunks columns before metadata creation: {chunks.schema}''
          (\<lambda>_. [ASchema (columns c)])),
      try_except
        (block
          [reading chunks ''chunks'' (\<lambda>c.
             call ev Call_select_docs_metadata
               (\<lambda>s. s\<lparr>docs_for_store := Some (pw_select (docs_columns ev) c)\<rparr>)),
           emit PathwayRag INFO ''Successfully created docs_for_store with headline metadata''
             (\<lambda>_. [])])
        is_Exception
        (\<lambda>e. block
          [emit PathwayRag WARNING ''Failed to create metadata: {e}. Using data-only format.''
             (\<lambda>_. [AExc e]),
           reading chunks ''chunks'' (\<lambda>c.
             call ev Call_select_docs_data
               (\<lambda>s. s\<lparr>docs_for_store := Some (pw_select (data_only_columns ev) c)\<rparr>))]),
      reading docs_for_store ''docs_for_store'' (\<lambda>d.
        emit PathwayRag INFO ''docs_for_store schema: {docs_for_store.schema}''
          (\<lambda>_. [ASchema (columns d)]))]"

subsection \<open>Lines 166 to 191: the store, the server, the engine\<close>

definition build_store :: "env \<Rightarrow> stmt" where
  "build_store ev = block
     [reading docs_for_store ''docs_for_store'' (\<lambda>d. reading knn_factory ''knn_factory'' (\<lambda>k.
        call ev Call_DocumentStore
          (\<lambda>s. s\<lparr>document_store := Some \<lparr>docs = d, retriever_factory = k\<rparr>\<rparr>))),
      emit PathwayRag INFO ''DocumentStore created successfully'' (\<lambda>_. [])]"

definition start_server :: "env \<Rightarrow> stmt" where
  "start_server ev = block
     [reading document_store ''document_store'' (\<lambda>ds.
        call ev Call_DocumentStoreServer
          (\<lambda>s. s\<lparr>server := Some \<lparr>s_host = HOST s, s_port = PORT s, s_document_store = ds\<rparr>\<rparr>)),
      emit PathwayRag INFO ''Starting DocumentStoreServer on {HOST}:{PORT}''
        (\<lambda>s. [AStr (HOST s), AInt (PORT s)]),
      try_except
        (reading server ''server'' (\<lambda>_. call ev Call_server_run (\<lambda>s. s\<lparr>served := Some ByRun\<rparr>)))
        is_TypeError
        (\<lambda>_. try_except
          (reading server ''server'' (\<lambda>_.
             call ev Call_server_serve (\<lambda>s. s\<lparr>served := Some ByServe\<rparr>)))
          is_Exception
          (\<lambda>err. emit PathwayRag WARNING ''server.run/serve failed: {err}'' (\<lambda>_. [AExc err])))]"

definition start_engine :: "env \<Rightarrow> stmt" where
  "start_engine ev = block
     [emit PathwayRag INFO ''Starting Pathway engine (pw.run())'' (\<lambda>_. []),
      call ev Call_pw_run (\<lambda>s. s\<lparr>engine_started := True\<rparr>)]"

subsection \<open>The whole script\<close>

definition script :: "env \<Rightarrow> stmt list" where
  "script ev =
     [imports_section ev, configuration ev, ensure_dependencies, read_input ev,
      parser_section, splitter_section ev, embedding_setup ev, knn_setup ev,
      prepare_docs ev, build_store ev, start_server ev, start_engine ev]"

definition startup :: "env \<Rightarrow> globals" where
  "startup ev = block (script ev) init"

text \<open>The globals after the first \<open>n\<close> sections of the script.\<close>

definition startup_upto :: "nat \<Rightarrow> env \<Rightarrow> globals" where
  "startup_upto n ev = block (take n (script ev)) init"

section \<open>Invariants and sample environments\<close>

text \<open>A statement preserves a property of the globals.\<close>

definition preserves :: "(globals \<Rightarrow> bool) \<Rightarrow> stmt \<Rightarrow> bool" where
  "preserves P c = (\<forall>s. P s \<longrightarrow> P (c s))"

text \<open>No pipeline object has been constructed yet.\<close>

definition nothing_built :: "globals \<Rightarrow> bool" where
  "nothing_built s =
     (news_stream s = None \<and> documents s = None \<and> chunks s = None \<and> splitter s = None
      \<and> chunks_with_split s = None \<and> embedder s = None \<and> emb_dim s = None
      \<and> knn_factory s = None \<and> docs_for_store s = None \<and> document_store s = None
      \<and> server s = None \<and> served s = None \<and> \<not> engine_started s)"

text \<open>
  The values of \<open>int\<close>, \<open>repr\<close> and of the splitter that the examples below use: the
  splitter of the examples cuts every text into two chunks, each paired with an empty
  metadata dictionary, as Pathway's splitters do.
\<close>

definition int_sample :: "string \<Rightarrow> py_exc + int" where
  "int_sample s =
     (if s = ''8000'' then Inr 8000
      else if s = ''1000'' then Inr 1000
      else if s = ''100'' then Inr 100
      else if s = ''10'' then Inr 10
      else Inl (Exc ValueError ''invalid literal for int() with base 10''))"

definition repr_sample :: "pyval \<Rightarrow> py_exc + string" where
  "repr_sample v =
     (if v = Tuple [Num 1, Num 2] then Inr ''(1, 2)''
      else if v = Num 5 then Inr ''5''
      else if v = NoneVal then Inr ''None''
      else Inl (Exc ValueError ''Exceeds the limit (4300 digits) for integer string conversion''))"

definition split_sample :: "splitter_obj \<Rightarrow> pyval \<Rightarrow> py_exc + pyval" where
  "split_sample sp v = Inr (List [Tuple [v, Dict []], Tuple [v, Dict []]])"

text \<open>Everything imports, nothing raises, no environment variable is set.\<close>

definition env_ok :: env where
  "env_ok = \<lparr>import_UnstructuredParser = True, import_ParseUnstructured = True,
     import_TokenCountSplitter = True, import_SentenceTransformerEmbedder = True,
     environ = (\<lambda>_. None), int_builtin = int_sample, raises = (\<lambda>_. None),
     embedding_dimension = 768, split_text = split_sample, repr_builtin = repr_sample\<rparr>"

text \<open>The record of Scenario A of the specification.\<close>

definition record_A :: row where
  "record_A = [(''headline'', Str ''A''), (''body'', Str ''short text'')]"



text \<open>The environment variables that lines 37 to 40 read.\<close>

definition config_keys :: "string list" where
  "config_keys = [''DATA_FILE'', ''HOST'', ''PORT'', ''SENTENCE_TRANSFORMERS_MODEL'']"

text \<open>
  An environment that supplies a commit interval and token bounds (under the names such
  settings would have), for claim C7.
\<close>

definition env_tuned :: env where
  "env_tuned = env_ok\<lparr>environ :=
     (\<lambda>k. if k = ''AUTOCOMMIT_DURATION_MS'' \<or> k = ''COMMIT_INTERVAL_MS'' then Some ''1000''
           else if k = ''MIN_TOKENS'' then Some ''10''
           else if k = ''MAX_TOKENS'' then Some ''100''
           else None)\<rparr>"

text \<open>The reader's commit interval and the splitter's token bounds, where they exist.\<close>

definition constants_fixed :: "globals \<Rightarrow> bool" where
  "constants_fixed s =
     ((case news_stream s of None \<Rightarrow> True | Some r \<Rightarrow> autocommit_duration_ms r = 500)
      \<and> (case splitter s of None \<Rightarrow> True
         | Some sp \<Rightarrow> min_tokens sp = 50 \<and> max_tokens sp = 400))"

text \<open>\<open>PORT\<close> is set to a string that is not an integer.\<close>

definition env_bad_port :: env where
  "env_bad_port = env_ok\<lparr>environ := (\<lambda>k. if k = ''PORT'' then Some ''80a'' else None)\<rparr>"

text \<open>The import of \<open>SentenceTransformerEmbedder\<close> fails.\<close>

definition env_no_embedder :: env where
  "env_no_embedder = env_ok\<lparr>import_SentenceTransformerEmbedder := False\<rparr>"

text \<open>
  The documents table of lines 73 to 76, over the reader of line 64, and the condition
  under which the first five sections of the script (up to line 86) run to their end.
\<close>

definition documents_table :: "env \<Rightarrow> table" where
  "documents_table ev = pw_select documents_columns
     (stream_table \<lparr>r_path = getenv ev ''DATA_FILE'' ''./feed.jsonl'',
        r_schema = NewsArticleSchema, r_mode = ''streaming'', autocommit_duration_ms = 500\<rparr>)"

definition reaches_parser :: "env \<Rightarrow> bool" where
  "reaches_parser ev =
     (\<not> isl (int_builtin ev (getenv ev ''PORT'' ''8000''))
      \<and> import_SentenceTransformerEmbedder ev
      \<and> raises ev Call_jsonlines_read = None
      \<and> raises ev Call_select_documents = None)"


definition dimension_unset :: "globals \<Rightarrow> bool" where
  "dimension_unset s = (emb_dim s = None \<and> knn_factory s = None)"



text \<open>
  \<open>server.run\<close> does not take the keyword \<open>threaded\<close>, and \<open>server.serve\<close> cannot bind the
  address.
\<close>

definition env_serve_fails :: env where
  "env_serve_fails = env_ok\<lparr>raises :=
     (\<lambda>c. if c = Call_server_run
           then Some (Exc TypeError ''run() got an unexpected keyword argument threaded'')
           else if c = Call_server_serve
           then Some (Exc OSError ''[Errno 98] Address already in use'')
           else None)\<rparr>"

text \<open>\<open>server.run\<close> cannot bind the address.\<close>

definition env_run_fails :: env where
  "env_run_fails = env_ok\<lparr>raises :=
     (\<lambda>c. if c = Call_server_run
           then Some (Exc OSError ''[Errno 98] Address already in use'')
           else None)\<rparr>"

text \<open>The server has not been started and the engine has not been run.\<close>

definition not_serving :: "globals \<Rightarrow> bool" where
  "not_serving s = (served s = None \<and> \<not> engine_started s)"

text \<open>
  \<open>server.run\<close> does not take the keyword \<open>threaded\<close>, and \<open>server.serve\<close> is interrupted
  from the keyboard.
\<close>

definition env_serve_interrupted :: env where
  "env_serve_interrupted = env_ok\<lparr>raises :=
     (\<lambda>c. if c = Call_server_run
           then Some (Exc TypeError ''run() got an unexpected keyword argument threaded'')
           else if c = Call_server_serve
           then Some (Exc KeyboardInterrupt [])
           else None)\<rparr>"

text \<open>
  The first of the four library calls of lines 94 to 107 that raises, if any; the splitter
  of line 94; and the table line 104 binds to \<open>chunks\<close> when none of them raises.
\<close>

definition splitter_failure :: "env \<Rightarrow> py_exc option" where
  "splitter_failure ev =
     (case raises ev Call_TokenCountSplitter of
        Some e \<Rightarrow> Some e
      | None \<Rightarrow> (case raises ev Call_select_split of
          Some e \<Rightarrow> Some e
        | None \<Rightarrow> (case raises ev Call_flatten of
            Some e \<Rightarrow> Some e
          | None \<Rightarrow> raises ev Call_select_chunks)))"

definition splitter_built :: splitter_obj where
  "splitter_built = \<lparr>min_tokens = 50, max_tokens = 400, encoding_name = ''cl100k_base''\<rparr>"

definition split_table :: "env \<Rightarrow> table" where
  "split_table ev = pw_select chunk_columns
     (pw_flatten ''chunk'' (pw_select (split_columns ev splitter_built) (documents_table ev)))"

text \<open>The import of \<open>TokenCountSplitter\<close> fails.\<close>

definition env_no_splitter :: env where
  "env_no_splitter = env_ok\<lparr>import_TokenCountSplitter := False\<rparr>"

text \<open>The splitter cannot be applied to the text column: the select of line 97 raises.\<close>

definition env_splitter_fails :: env where
  "env_splitter_fails = env_ok\<lparr>raises :=
     (\<lambda>c. if c = Call_select_split
           then Some (Exc ValueError ''splitter cannot be applied to this column'')
           else None)\<rparr>"

text \<open>
  The rows that the table handed to the document store (line 167) derives from one record
  of the stream, if startup has bound that table.
\<close>

definition committed_rows :: "env \<Rightarrow> row \<Rightarrow> (py_exc + row list) option" where
  "committed_rows ev r =
     (case docs_for_store (startup ev) of
        None \<Rightarrow> None
      | Some d \<Rightarrow> Some (derive d r))"

text \<open>The select of line 146, with its metadata column, cannot be built.\<close>

definition env_metadata_fails :: env where
  "env_metadata_fails = env_ok\<lparr>raises :=
     (\<lambda>c. if c = Call_select_docs_metadata
           then Some (Exc ValueError ''cannot build the metadata column'')
           else None)\<rparr>"

section \<open>Reasoning about statements\<close>

lemmas section_defs = imports_section_def import_parser_def import_splitter_def
  import_embedder_def configuration_def ensure_dependencies_def read_input_def
  parser_section_def splitter_section_def splitter_try_def splitter_except_def
  embedding_setup_def knn_setup_def prepare_docs_def build_store_def start_server_def
  start_engine_def

lemmas stmt_defs = raise_def emit_def try_except_def call_def reading_def cond_def skip_def

lemmas sample_defs = env_ok_def init_def getenv_def int_sample_def

lemma block_Cons_None: "raised (c s) = None \<Longrightarrow> block (c # cs) s = block cs (c s)"
  by (simp add: Let_def)

lemma block_Cons_Some: "raised (c s) = Some e \<Longrightarrow> block (c # cs) s = c s"
  by (simp add: Let_def)

lemma list_all_NilI: "list_all P []"
  by simp

lemma list_all_ConsI: "P x \<Longrightarrow> list_all P xs \<Longrightarrow> list_all P (x # xs)"
  by simp

lemma preserves_block: "list_all (preserves P) cs \<Longrightarrow> preserves P (block cs)"
proof (induction cs)
  case Nil
  then show ?case by (simp add: preserves_def)
next
  case (Cons c cs)
  then show ?case by (auto simp: preserves_def Let_def)
qed

lemma preserves_try_except:
  "preserves P body \<Longrightarrow> (\<And>e. preserves P (h e)) \<Longrightarrow> preserves P (\<lambda>s. s\<lparr>raised := None\<rparr>)
   \<Longrightarrow> preserves P (try_except body c h)"
  by (auto simp: preserves_def try_except_def Let_def split: option.splits)

lemma preserves_call:
  "preserves P eff \<Longrightarrow> (\<And>e. preserves P (raise e)) \<Longrightarrow> preserves P (call ev site eff)"
  by (auto simp: preserves_def call_def split: option.splits)

lemma preserves_reading:
  "(\<And>v. preserves P (k v)) \<Longrightarrow> (\<And>e. preserves P (raise e))
   \<Longrightarrow> preserves P (reading var nm k)"
  by (auto simp: preserves_def reading_def split: option.splits)

lemma preserves_cond: "preserves P c1 \<Longrightarrow> preserves P c2 \<Longrightarrow> preserves P (cond b c1 c2)"
  by (auto simp: preserves_def cond_def)

lemma preserves_skip: "preserves P skip"
  by (simp add: preserves_def skip_def)

lemma preserves_case_sum:
  "(\<And>e. preserves P (f e)) \<Longrightarrow> (\<And>v. preserves P (g v))
   \<Longrightarrow> preserves P (case x of Inl e \<Rightarrow> f e | Inr v \<Rightarrow> g v)"
  by (cases x) auto

lemmas preserves_intros = list_all_NilI list_all_ConsI preserves_block preserves_try_except
  preserves_call preserves_reading preserves_cond preserves_skip preserves_case_sum

lemma startup_invariant:
  assumes "P init" and "list_all (preserves P) (script ev)"
  shows "P (startup ev)"
proof -
  have "preserves P (block (script ev))"
    using assms(2) by (rule preserves_block)
  with assms(1) show ?thesis
    by (simp add: preserves_def startup_def)
qed

section \<open>The normalizer's extraction (claim C5)\<close>

lemma derive_documents_table:
  "derive (documents_table ev) [(''headline'', h), (''body'', b)] =
     (case extract_body b of
        Inl e \<Rightarrow> Inl e
      | Inr t \<Rightarrow> Inr [[(''text'', t), (''headline'', h)]])"
  by (simp add: documents_table_def pw_select_def stream_table_def documents_columns_def
      pw_apply_def pw_this_def split: sum.splits)




section \<open>Configuration values (claim C7)\<close>

lemma script_constants_fixed: "list_all (preserves constants_fixed) (script ev)"
  unfolding script_def section_defs
  by (intro preserves_intros; simp add: preserves_def constants_fixed_def raise_def emit_def)

lemma call_environ: "call (ev\<lparr>environ := f\<rparr>) site eff = call ev site eff"
  by (rule ext) (simp add: call_def)

lemma getenv_environ:
  "k \<in> set config_keys \<Longrightarrow> \<forall>k\<in>set config_keys. f k = environ ev k \<Longrightarrow>
   getenv (ev\<lparr>environ := f\<rparr>) k d = getenv ev k d"
  by (simp add: getenv_def)

lemma script_environ:
  assumes "\<forall>k\<in>set config_keys. f k = environ ev k"
  shows "script (ev\<lparr>environ := f\<rparr>) = script ev"
proof -
  have g: "getenv (ev\<lparr>environ := f\<rparr>) k d = getenv ev k d" if "k \<in> set config_keys" for k d
    using that assms by (rule getenv_environ)
  have keys: "''DATA_FILE'' \<in> set config_keys" "''HOST'' \<in> set config_keys"
    "''PORT'' \<in> set config_keys" "''SENTENCE_TRANSFORMERS_MODEL'' \<in> set config_keys"
    by (simp_all add: config_keys_def)
  show ?thesis
    unfolding script_def section_defs
    by (simp add: call_environ g [OF keys(1)] g [OF keys(2)] g [OF keys(3)] g [OF keys(4)]
        split_columns_def docs_columns_def data_only_columns_def)
qed

lemma startup_env_tuned_reader:
  "map_option autocommit_duration_ms (news_stream (startup env_tuned)) = Some 500"
  unfolding startup_def script_def section_defs
  by (simp add: stmt_defs env_tuned_def sample_defs Let_def)

lemma startup_env_tuned_splitter:
  "map_option min_tokens (splitter (startup env_tuned)) = Some 50
   \<and> map_option max_tokens (splitter (startup env_tuned)) = Some 400"
  unfolding startup_def script_def section_defs
  by (simp add: stmt_defs env_tuned_def sample_defs Let_def)

text \<open>
  C7, as stated, fails on the code: with the environment supplying a commit interval of
  1000 ms and token bounds of 10 and 100, the reader is still built with an interval of
  500 ms and the splitter with bounds 50 and 400. The script reads no such settings.
\<close>

theorem C7_counterexample:
  "environ env_tuned ''COMMIT_INTERVAL_MS'' = Some ''1000''
   \<and> environ env_tuned ''MIN_TOKENS'' = Some ''10''
   \<and> environ env_tuned ''MAX_TOKENS'' = Some ''100''
   \<and> int_builtin env_tuned ''1000'' = Inr 1000
   \<and> int_builtin env_tuned ''10'' = Inr 10
   \<and> int_builtin env_tuned ''100'' = Inr 100
   \<and> map_option autocommit_duration_ms (news_stream (startup env_tuned)) = Some 500
   \<and> map_option min_tokens (splitter (startup env_tuned)) = Some 50
   \<and> map_option max_tokens (splitter (startup env_tuned)) = Some 400"
  using startup_env_tuned_reader startup_env_tuned_splitter
  by (simp add: env_tuned_def env_ok_def int_sample_def)

text \<open>
  C7, amended: the commit interval and the splitter's token bounds are constants of the
  program. Whatever the environment, a reader that startup builds has a commit interval of
  500 ms, and a splitter that it builds has \<open>min_tokens = 50\<close> and \<open>max_tokens = 400\<close>.
  Only the four variables of lines 37 to 40 (the source path, the host, the port and the
  model name) are read from the environment: two environments that agree on these four,
  and differ in any other variable, give the same globals at the end of startup.
\<close>

theorem C7_constants_fixed:
  "(\<forall>r. news_stream (startup ev) = Some r \<longrightarrow> autocommit_duration_ms r = 500)
   \<and> (\<forall>sp. splitter (startup ev) = Some sp \<longrightarrow> min_tokens sp = 50 \<and> max_tokens sp = 400)
   \<and> ((\<forall>k\<in>set config_keys. f k = environ ev k) \<longrightarrow> startup (ev\<lparr>environ := f\<rparr>) = startup ev)"
proof (intro conjI impI)
  have "constants_fixed init"
    by (simp add: constants_fixed_def init_def)
  then have c: "constants_fixed (startup ev)"
    using script_constants_fixed by (rule startup_invariant)
  from c show "\<forall>r. news_stream (startup ev) = Some r \<longrightarrow> autocommit_duration_ms r = 500"
    by (simp add: constants_fixed_def split: option.splits)
  from c show "\<forall>sp. splitter (startup ev) = Some sp \<longrightarrow> min_tokens sp = 50 \<and> max_tokens sp = 400"
    by (simp add: constants_fixed_def split: option.splits)
next
  assume "\<forall>k\<in>set config_keys. f k = environ ev k"
  then have "script (ev\<lparr>environ := f\<rparr>) = script ev"
    by (rule script_environ)
  then show "startup (ev\<lparr>environ := f\<rparr>) = startup ev"
    by (simp add: startup_def)
qed

lemma startup_env_ok_reader:
  "news_stream (startup env_ok) = Some \<lparr>r_path = ''./feed.jsonl'', r_schema = NewsArticleSchema,
     r_mode = ''streaming'', autocommit_duration_ms = 500\<rparr>"
  unfolding startup_def script_def section_defs
  by (simp add: stmt_defs sample_defs Let_def)

lemma startup_env_ok_splitter:
  "splitter (startup env_ok) = Some \<lparr>min_tokens = 50, max_tokens = 400,
     encoding_name = ''cl100k_base''\<rparr>"
  unfolding startup_def script_def section_defs
  by (simp add: stmt_defs sample_defs Let_def)

theorem C7_constants_fixed_witness:
  "news_stream (startup env_ok) = Some \<lparr>r_path = ''./feed.jsonl'', r_schema = NewsArticleSchema,
     r_mode = ''streaming'', autocommit_duration_ms = 500\<rparr>
   \<and> splitter (startup env_ok) = Some \<lparr>min_tokens = 50, max_tokens = 400,
     encoding_name = ''cl100k_base''\<rparr>
   \<and> autocommit_duration_ms \<lparr>r_path = ''./feed.jsonl'', r_schema = NewsArticleSchema,
     r_mode = ''streaming'', autocommit_duration_ms = 500\<rparr> = 500
   \<and> min_tokens \<lparr>min_tokens = 50, max_tokens = 400, encoding_name = ''cl100k_base''\<rparr> = 50
   \<and> environ env_tuned ''DATA_FILE'' = environ env_ok ''DATA_FILE''
   \<and> environ env_tuned ''HOST'' = environ env_ok ''HOST''
   \<and> environ env_tuned ''PORT'' = environ env_ok ''PORT''
   \<and> environ env_tuned ''SENTENCE_TRANSFORMERS_MODEL'' = environ env_ok ''SENTENCE_TRANSFORMERS_MODEL''
   \<and> environ env_tuned ''MIN_TOKENS'' \<noteq> environ env_ok ''MIN_TOKENS''
   \<and> startup (env_ok\<lparr>environ := environ env_tuned\<rparr>) = startup env_ok"
  using C7_constants_fixed [of env_ok "environ env_tuned"] startup_env_ok_reader
    startup_env_ok_splitter
  by (simp add: config_keys_def env_tuned_def env_ok_def)

section \<open>Running the script section by section\<close>

lemma block_single: "block [c] s = c s"
  by (simp add: Let_def)

declare block.simps(2) [simp del]

lemma block_append:
  "raised s = None \<Longrightarrow>
   block (xs @ ys) s = (if raised (block xs s) = None then block ys (block xs s) else block xs s)"
proof (induction xs arbitrary: s)
  case Nil
  then show ?case by simp
next
  case (Cons c cs)
  show ?case
  proof (cases "raised (c s)")
    case None
    then show ?thesis using Cons.IH [of "c s"] by (simp add: block_Cons_None)
  next
    case (Some e)
    then show ?thesis by (simp add: block_Cons_Some)
  qed
qed

lemma startup_split:
  "startup ev =
    (if raised (startup_upto n ev) = None then block (drop n (script ev)) (startup_upto n ev)
     else startup_upto n ev)"
proof -
  have "raised init = None"
    by (simp add: init_def)
  then have "block (take n (script ev) @ drop n (script ev)) init =
    (if raised (block (take n (script ev)) init) = None
     then block (drop n (script ev)) (block (take n (script ev)) init)
     else block (take n (script ev)) init)"
    by (rule block_append)
  then show ?thesis
    by (simp add: startup_def startup_upto_def)
qed

lemma startup_aborted:
  "raised (startup_upto n ev) = Some e \<Longrightarrow> startup ev = startup_upto n ev"
  using startup_split [of ev n] by simp

lemma startup_upto_2_eq: "startup_upto 2 ev = block [imports_section ev, configuration ev] init"
  by (simp add: startup_upto_def script_def)

lemma startup_upto_3_eq:
  "startup_upto 3 ev = block [imports_section ev, configuration ev, ensure_dependencies] init"
  by (simp add: startup_upto_def script_def)

subsection \<open>Imports, configuration, the dependency check\<close>

lemma block_Cons_cases:
  "block (c # cs) s = (case raised (c s) of None \<Rightarrow> block cs (c s) | Some e \<Rightarrow> c s)"
  by (simp add: block.simps Let_def split: option.splits)

lemma import_parser_facts:
  assumes "raised s = None"
  shows "raised (import_parser ev s) = None"
    and "nothing_built s \<Longrightarrow> nothing_built (import_parser ev s)"
  using assms
  by (cases "import_UnstructuredParser ev"; cases "import_ParseUnstructured ev";
      simp add: import_parser_def cond_def emit_def nothing_built_def block_Cons_cases)+

lemma import_splitter_facts:
  assumes "raised s = None"
  shows "raised (import_splitter ev s) = None"
    and "nothing_built s \<Longrightarrow> nothing_built (import_splitter ev s)"
    and "TokenCountSplitter (import_splitter ev s) = import_TokenCountSplitter ev"
  using assms
  by (cases "import_TokenCountSplitter ev";
      simp add: import_splitter_def cond_def emit_def nothing_built_def block_Cons_cases)+

lemma import_embedder_facts:
  assumes "raised s = None"
  shows "raised (import_embedder ev s) = None"
    and "nothing_built s \<Longrightarrow> nothing_built (import_embedder ev s)"
    and "SentenceTransformerEmbedder (import_embedder ev s) = import_SentenceTransformerEmbedder ev"
    and "TokenCountSplitter (import_embedder ev s) = TokenCountSplitter s"
  using assms
  by (cases "import_SentenceTransformerEmbedder ev";
      simp add: import_embedder_def cond_def emit_def nothing_built_def block_Cons_cases)+

lemma imports_section_eq:
  assumes "raised s = None"
  shows "imports_section ev s = import_embedder ev (import_splitter ev (import_parser ev s))"
proof -
  have 1: "raised (import_parser ev s) = None"
    using assms by (rule import_parser_facts)
  then have 2: "raised (import_splitter ev (import_parser ev s)) = None"
    by (rule import_splitter_facts)
  show ?thesis
    by (simp add: imports_section_def block_Cons_None 1 2 block_single)
qed

lemma imports_section_facts:
  assumes "raised s = None"
  shows "raised (imports_section ev s) = None"
    and "nothing_built s \<Longrightarrow> nothing_built (imports_section ev s)"
    and "SentenceTransformerEmbedder (imports_section ev s) = import_SentenceTransformerEmbedder ev"
    and "TokenCountSplitter (imports_section ev s) = import_TokenCountSplitter ev"
proof -
  have 1: "raised (import_parser ev s) = None"
    using assms by (rule import_parser_facts)
  then have 2: "raised (import_splitter ev (import_parser ev s)) = None"
    by (rule import_splitter_facts)
  note eq = imports_section_eq [OF assms]
  show "raised (imports_section ev s) = None"
    by (simp add: eq import_embedder_facts(1) [OF 2])
  show "nothing_built (imports_section ev s)" if "nothing_built s"
    using that
    by (simp add: eq import_embedder_facts(2) [OF 2] import_splitter_facts(2) [OF 1]
        import_parser_facts(2) [OF assms])
  show "SentenceTransformerEmbedder (imports_section ev s) = import_SentenceTransformerEmbedder ev"
    by (simp add: eq import_embedder_facts(3) [OF 2])
  show "TokenCountSplitter (imports_section ev s) = import_TokenCountSplitter ev"
    by (simp add: eq import_embedder_facts(4) [OF 2] import_splitter_facts(3) [OF 1])
qed

lemma configuration_Inl:
  assumes "raised s = None" and "int_builtin ev (getenv ev ''PORT'' ''8000'') = Inl e"
  shows "raised (configuration ev s) = Some e"
    and "nothing_built s \<Longrightarrow> nothing_built (configuration ev s)"
  using assms by (simp_all add: configuration_def raise_def nothing_built_def block_Cons_cases)

lemma configuration_Inr:
  assumes "raised s = None" and "int_builtin ev (getenv ev ''PORT'' ''8000'') = Inr p"
  shows "raised (configuration ev s) = None"
    and "nothing_built s \<Longrightarrow> nothing_built (configuration ev s)"
    and "SentenceTransformerEmbedder (configuration ev s) = SentenceTransformerEmbedder s"
    and "TokenCountSplitter (configuration ev s) = TokenCountSplitter s"
    and "DATA_FILE (configuration ev s) = getenv ev ''DATA_FILE'' ''./feed.jsonl''"
  using assms by (simp_all add: configuration_def raise_def nothing_built_def block_Cons_cases)

lemma ensure_dependencies_missing:
  assumes "raised s = None" and "\<not> SentenceTransformerEmbedder s"
  shows "raised (ensure_dependencies s) = Some (Exc RuntimeError
          (''SentenceTransformerEmbedder not available. '' @
           ''Install 'sentence-transformers' and use a Pathway build with the LLM xpack.''))"
    and "nothing_built s \<Longrightarrow> nothing_built (ensure_dependencies s)"
  using assms by (simp_all add: ensure_dependencies_def cond_def raise_def nothing_built_def)

lemma ensure_dependencies_present:
  "SentenceTransformerEmbedder s \<Longrightarrow> ensure_dependencies s = s"
  by (simp add: ensure_dependencies_def cond_def skip_def)

lemma init_facts: "raised init = None" "nothing_built init"
  by (simp_all add: init_def nothing_built_def)

lemma startup_upto_2: "startup_upto 2 ev = configuration ev (imports_section ev init)"
  using imports_section_facts(1) [OF init_facts(1), of ev]
  by (simp add: startup_upto_2_eq block_Cons_None block_single)

lemma startup_upto_3:
  "raised (configuration ev (imports_section ev init)) = None \<Longrightarrow>
   startup_upto 3 ev = ensure_dependencies (configuration ev (imports_section ev init))"
  using imports_section_facts(1) [OF init_facts(1), of ev]
  by (simp add: startup_upto_3_eq block_Cons_None block_single)

section \<open>A port that is not an integer (claim C10)\<close>

text \<open>
  C10: if \<open>PORT\<close> is set to a string on which \<open>int\<close> raises, startup ends with that
  exception, unhandled, and no pipeline object has been constructed.
\<close>

theorem C10_bad_port_aborts:
  assumes "environ ev ''PORT'' = Some p" and "int_builtin ev p = Inl e"
  shows "raised (startup ev) = Some e \<and> nothing_built (startup ev)"
proof -
  have bad: "int_builtin ev (getenv ev ''PORT'' ''8000'') = Inl e"
    using assms by (simp add: getenv_def)
  note imp = imports_section_facts [OF init_facts(1), of ev]
  have r: "raised (startup_upto 2 ev) = Some e" and nb: "nothing_built (startup_upto 2 ev)"
    using configuration_Inl [OF imp(1) bad] imp(2) [OF init_facts(2)]
    by (simp_all add: startup_upto_2)
  from r have "startup ev = startup_upto 2 ev"
    by (rule startup_aborted)
  with r nb show ?thesis by simp
qed

theorem C10_bad_port_aborts_witness:
  "environ env_bad_port ''PORT'' = Some ''80a''
   \<and> int_builtin env_bad_port ''80a'' = Inl (Exc ValueError ''invalid literal for int() with base 10'')
   \<and> raised (startup env_bad_port) = Some (Exc ValueError ''invalid literal for int() with base 10'')
   \<and> nothing_built (startup env_bad_port)"
  using C10_bad_port_aborts [of env_bad_port "''80a''"
      "Exc ValueError ''invalid literal for int() with base 10''"]
  by (simp add: env_bad_port_def env_ok_def int_sample_def)

section \<open>A missing embedder (claim C4)\<close>

text \<open>
  C4: if \<open>SentenceTransformerEmbedder\<close> cannot be imported, startup ends with an exception
  raised and no pipeline object constructed (in particular no index factory). When the
  port parses, the exception is the RuntimeError of line 50.
\<close>

theorem C4_missing_embedder_aborts:
  assumes "\<not> import_SentenceTransformerEmbedder ev"
  shows "raised (startup ev) \<noteq> None \<and> nothing_built (startup ev)
    \<and> knn_factory (startup ev) = None
    \<and> (\<not> isl (int_builtin ev (getenv ev ''PORT'' ''8000'')) \<longrightarrow>
         raised (startup ev) = Some (Exc RuntimeError
          (''SentenceTransformerEmbedder not available. '' @
           ''Install 'sentence-transformers' and use a Pathway build with the LLM xpack.'')))"
proof (cases "int_builtin ev (getenv ev ''PORT'' ''8000'')")
  case (Inl e)
  note imp = imports_section_facts [OF init_facts(1), of ev]
  have r: "raised (startup_upto 2 ev) = Some e" and nb: "nothing_built (startup_upto 2 ev)"
    using configuration_Inl [OF imp(1) Inl] imp(2) [OF init_facts(2)]
    by (simp_all add: startup_upto_2)
  from r have "startup ev = startup_upto 2 ev"
    by (rule startup_aborted)
  with r nb Inl show ?thesis
    by (simp add: nothing_built_def)
next
  case (Inr p)
  note imp = imports_section_facts [OF init_facts(1), of ev]
  let ?s2 = "configuration ev (imports_section ev init)"
  have r2: "raised ?s2 = None" and nb2: "nothing_built ?s2"
    and miss: "\<not> SentenceTransformerEmbedder ?s2"
    using configuration_Inr [OF imp(1) Inr] imp(2) [OF init_facts(2)] imp(3) assms
    by simp_all
  have eq3: "startup_upto 3 ev = ensure_dependencies ?s2"
    using r2 by (rule startup_upto_3)
  have r3: "raised (startup_upto 3 ev) = Some (Exc RuntimeError
          (''SentenceTransformerEmbedder not available. '' @
           ''Install 'sentence-transformers' and use a Pathway build with the LLM xpack.''))"
    and nb3: "nothing_built (startup_upto 3 ev)"
    using ensure_dependencies_missing [OF r2 miss] nb2 by (simp_all add: eq3)
  from r3 have "startup ev = startup_upto 3 ev"
    by (rule startup_aborted)
  with r3 nb3 Inr show ?thesis
    by (simp add: nothing_built_def)
qed

theorem C4_missing_embedder_aborts_witness:
  "\<not> import_SentenceTransformerEmbedder env_no_embedder
   \<and> \<not> isl (int_builtin env_no_embedder (getenv env_no_embedder ''PORT'' ''8000''))
   \<and> raised (startup env_no_embedder) = Some (Exc RuntimeError
          (''SentenceTransformerEmbedder not available. '' @
           ''Install 'sentence-transformers' and use a Pathway build with the LLM xpack.''))
   \<and> nothing_built (startup env_no_embedder) \<and> knn_factory (startup env_no_embedder) = None"
  using C4_missing_embedder_aborts [of env_no_embedder]
  by (simp add: env_no_embedder_def env_ok_def int_sample_def getenv_def)

section \<open>The stream, the documents table and the parsing section\<close>

lemma read_input_ok:
  assumes "raised s = None" and "nothing_built s"
    and "raises ev Call_jsonlines_read = None" and "raises ev Call_select_documents = None"
  shows "raised (read_input ev s) = None"
    and "documents (read_input ev s) = Some (pw_select documents_columns
          (stream_table \<lparr>r_path = DATA_FILE s, r_schema = NewsArticleSchema,
             r_mode = ''streaming'', autocommit_duration_ms = 500\<rparr>))"
    and "chunks (read_input ev s) = None"
    and "TokenCountSplitter (read_input ev s) = TokenCountSplitter s"
  using assms
  by (simp_all add: read_input_def block_Cons_cases call_def reading_def emit_def
      nothing_built_def)

lemma read_input_fails:
  assumes "raised s = None" and "nothing_built s"
    and "raises ev Call_jsonlines_read \<noteq> None \<or> raises ev Call_select_documents \<noteq> None"
  shows "raised (read_input ev s) \<noteq> None"
    and "documents (read_input ev s) = None"
    and "chunks (read_input ev s) = None"
  using assms
  by (cases "raises ev Call_jsonlines_read"; cases "raises ev Call_select_documents";
      simp add: read_input_def block_Cons_cases call_def reading_def emit_def raise_def
        nothing_built_def)+

lemma parser_section_facts:
  assumes "raised s = None" and "documents s = Some d"
  shows "raised (parser_section s) = None"
    and "documents (parser_section s) = Some d"
    and "chunks (parser_section s) = Some d"
    and "TokenCountSplitter (parser_section s) = TokenCountSplitter s"
  using assms
  by (simp_all add: parser_section_def block_Cons_cases reading_def emit_def)

lemma startup_upto_5_eq:
  "startup_upto 5 ev = block [imports_section ev, configuration ev, ensure_dependencies,
     read_input ev, parser_section] init"
  by (simp add: startup_upto_def script_def)

lemma startup_upto_5_reached:
  assumes "reaches_parser ev"
  shows "raised (startup_upto 5 ev) = None"
    and "documents (startup_upto 5 ev) = Some (documents_table ev)"
    and "chunks (startup_upto 5 ev) = Some (documents_table ev)"
    and "TokenCountSplitter (startup_upto 5 ev) = import_TokenCountSplitter ev"
proof -
  from assms obtain p where port: "int_builtin ev (getenv ev ''PORT'' ''8000'') = Inr p"
    by (cases "int_builtin ev (getenv ev ''PORT'' ''8000'')") (simp_all add: reaches_parser_def)
  from assms have emb: "import_SentenceTransformerEmbedder ev"
    and rd: "raises ev Call_jsonlines_read = None"
    and sel: "raises ev Call_select_documents = None"
    by (simp_all add: reaches_parser_def)
  let ?s1 = "imports_section ev init"
  let ?s2 = "configuration ev ?s1"
  let ?s4 = "read_input ev ?s2"
  let ?s5 = "parser_section ?s4"
  note i = imports_section_facts [OF init_facts(1), of ev]
  note c = configuration_Inr [OF i(1) port]
  have nb2: "nothing_built ?s2"
    using c(2) i(2) init_facts(2) by simp
  have e: "ensure_dependencies ?s2 = ?s2"
    using c(3) i(3) emb by (simp add: ensure_dependencies_present)
  note r = read_input_ok [OF c(1) nb2 rd sel]
  have d4: "documents ?s4 = Some (documents_table ev)"
    using r(2) c(5) by (simp add: documents_table_def)
  note ps = parser_section_facts [OF r(1) d4]
  have eq: "startup_upto 5 ev = ?s5"
    by (simp add: startup_upto_5_eq block_Cons_None block_single i(1) c(1) e r(1))
  show "raised (startup_upto 5 ev) = None"
    by (simp add: eq ps(1))
  show "documents (startup_upto 5 ev) = Some (documents_table ev)"
    by (simp add: eq ps(2))
  show "chunks (startup_upto 5 ev) = Some (documents_table ev)"
    by (simp add: eq ps(3))
  show "TokenCountSplitter (startup_upto 5 ev) = import_TokenCountSplitter ev"
    by (simp add: eq ps(4) r(4) c(4) i(4))
qed

lemma startup_upto_5_not_reached:
  assumes "\<not> reaches_parser ev"
  shows "raised (startup_upto 5 ev) \<noteq> None"
    and "documents (startup_upto 5 ev) = None"
    and "chunks (startup_upto 5 ev) = None"
proof -
  let ?s1 = "imports_section ev init"
  let ?s2 = "configuration ev ?s1"
  note i = imports_section_facts [OF init_facts(1), of ev]
  have "raised (startup_upto 5 ev) \<noteq> None \<and> documents (startup_upto 5 ev) = None
    \<and> chunks (startup_upto 5 ev) = None"
  proof (cases "int_builtin ev (getenv ev ''PORT'' ''8000'')")
    case (Inl e)
    note c = configuration_Inl [OF i(1) Inl]
    have "startup_upto 5 ev = ?s2"
      by (simp add: startup_upto_5_eq block_Cons_None i(1) block_Cons_Some [where c = "configuration ev", OF c(1)])
    moreover have "nothing_built ?s2"
      using c(2) i(2) init_facts(2) by simp
    ultimately show ?thesis
      using c(1) by (simp add: nothing_built_def)
  next
    case (Inr p)
    note c = configuration_Inr [OF i(1) Inr]
    have nb2: "nothing_built ?s2"
      using c(2) i(2) init_facts(2) by simp
    show ?thesis
    proof (cases "import_SentenceTransformerEmbedder ev")
      case False
      then have miss: "\<not> SentenceTransformerEmbedder ?s2"
        using c(3) i(3) by simp
      note d = ensure_dependencies_missing [OF c(1) miss]
      have "startup_upto 5 ev = ensure_dependencies ?s2"
        by (simp add: startup_upto_5_eq block_Cons_None i(1) c(1) block_Cons_Some [where c = ensure_dependencies, OF d(1)])
      moreover have "nothing_built (ensure_dependencies ?s2)"
        using d(2) nb2 by simp
      ultimately show ?thesis
        using d(1) by (simp add: nothing_built_def)
    next
      case True
      then have e: "ensure_dependencies ?s2 = ?s2"
        using c(3) i(3) by (simp add: ensure_dependencies_present)
      from assms Inr True
      have "raises ev Call_jsonlines_read \<noteq> None \<or> raises ev Call_select_documents \<noteq> None"
        by (auto simp: reaches_parser_def)
      note r = read_input_fails [OF c(1) nb2 this]
      from r(1) obtain x where x: "raised (read_input ev ?s2) = Some x"
        by auto
      have "startup_upto 5 ev = read_input ev ?s2"
        by (simp add: startup_upto_5_eq block_Cons_None i(1) c(1) e block_Cons_Some [where c = "read_input ev", OF x])
      then show ?thesis
        using r by simp
    qed
  qed
  then show "raised (startup_upto 5 ev) \<noteq> None"
    and "documents (startup_upto 5 ev) = None"
    and "chunks (startup_upto 5 ev) = None"
    by simp_all
qed

lemma chunks_after_parser:
  "chunks (startup_upto 5 ev) = (if reaches_parser ev then Some (documents_table ev) else None)"
  by (simp add: startup_upto_5_reached startup_upto_5_not_reached)

section \<open>No parsing (claim C9)\<close>

text \<open>
  C9: after the parsing section (line 86) the chunks table is the documents table itself;
  it is the same table whether or not either import of the parser succeeded; and for every
  record, the row it derives carries as its text the normalized body (and fails where the
  normalization of the body raises).
\<close>

theorem C9_parsing_is_identity:
  "chunks (startup_upto 5 ev) = documents (startup_upto 5 ev)
   \<and> chunks (startup_upto 5
        (ev\<lparr>import_UnstructuredParser := a, import_ParseUnstructured := b\<rparr>))
       = chunks (startup_upto 5 ev)
   \<and> (\<forall>c h bd. chunks (startup_upto 5 ev) = Some c \<longrightarrow>
        derive c [(''headline'', h), (''body'', bd)] =
          (case extract_body bd of
             Inl e \<Rightarrow> Inl e
           | Inr t \<Rightarrow> Inr [[(''text'', t), (''headline'', h)]]))"
proof (intro conjI allI impI)
  show "chunks (startup_upto 5 ev) = documents (startup_upto 5 ev)"
    by (cases "reaches_parser ev")
      (simp_all add: startup_upto_5_reached startup_upto_5_not_reached)
next
  let ?ev = "ev\<lparr>import_UnstructuredParser := a, import_ParseUnstructured := b\<rparr>"
  have "reaches_parser ?ev = reaches_parser ev" and "documents_table ?ev = documents_table ev"
    by (simp_all add: reaches_parser_def documents_table_def getenv_def)
  then show "chunks (startup_upto 5 ?ev) = chunks (startup_upto 5 ev)"
    by (simp add: chunks_after_parser)
next
  fix c h bd
  assume "chunks (startup_upto 5 ev) = Some c"
  then have "c = documents_table ev"
    by (simp add: chunks_after_parser split: if_splits)
  then show "derive c [(''headline'', h), (''body'', bd)] =
      (case extract_body bd of
         Inl e \<Rightarrow> Inl e
       | Inr t \<Rightarrow> Inr [[(''text'', t), (''headline'', h)]])"
    by (simp add: derive_documents_table)
qed

lemma reaches_parser_env_ok: "reaches_parser env_ok"
  by (simp add: reaches_parser_def env_ok_def getenv_def int_sample_def)

theorem C9_parsing_is_identity_witness:
  "chunks (startup_upto 5 env_ok) = Some (documents_table env_ok)
   \<and> derive (documents_table env_ok) [(''headline'', Str ''A''), (''body'', Str ''short text'')]
       = Inr [[(''text'', Str ''short text''), (''headline'', Str ''A'')]]"
  using C9_parsing_is_identity [of env_ok True True]
    startup_upto_5_reached(3) [OF reaches_parser_env_ok]
  by simp

section \<open>Running the script from a later section\<close>

lemma try_except_cases:
  "try_except body catches handler s =
     (case raised (body s) of
        None \<Rightarrow> body s
      | Some e \<Rightarrow> if catches (exc_cls e) then handler e ((body s)\<lparr>raised := None\<rparr>) else body s)"
  by (simp add: try_except_def Let_def)

lemma preserves_blockD: "list_all (preserves P) cs \<Longrightarrow> P s \<Longrightarrow> P (block cs s)"
  using preserves_block [of P cs] by (simp add: preserves_def)

lemma startup_upto_invariant:
  assumes "P init" and "list_all (preserves P) (script ev)"
  shows "P (startup_upto n ev)"
proof -
  have "list_all (preserves P) (take n (script ev))"
    using assms(2) by (auto simp: list_all_iff dest: in_set_takeD)
  then show ?thesis
    using assms(1) by (simp add: startup_upto_def preserves_blockD)
qed

lemma startup_upto_Suc:
  assumes "n < length (script ev)"
  shows "startup_upto (Suc n) ev =
    (if raised (startup_upto n ev) = None then (script ev ! n) (startup_upto n ev)
     else startup_upto n ev)"
proof -
  have "take (Suc n) (script ev) = take n (script ev) @ [script ev ! n]"
    using assms by (rule take_Suc_conv_app_nth)
  then show ?thesis
    using block_append [OF init_facts(1), of "take n (script ev)" "[script ev ! n]"]
    by (simp add: startup_upto_def block_single)
qed

lemma length_script: "length (script ev) = 12"
  by (simp add: script_def)

lemma startup_upto_all: "startup_upto 12 ev = startup ev"
  by (simp add: startup_upto_def startup_def length_script)



lemma startup_upto_11:
  "startup_upto 11 ev = (if raised (startup_upto 10 ev) = None
     then start_server ev (startup_upto 10 ev) else startup_upto 10 ev)"
  using startup_upto_Suc [of 10 ev] by (simp add: length_script) (simp add: script_def)

lemma startup_upto_12:
  "startup ev = (if raised (startup_upto 11 ev) = None
     then start_engine ev (startup_upto 11 ev) else startup_upto 11 ev)"
  using startup_upto_Suc [of 11 ev] by (simp add: length_script startup_upto_all) (simp add: script_def)


section \<open>The embedding dimension (claim C1)\<close>




lemmas embedding_setup_simps = embedding_setup_def block_Cons_cases block.simps(1)
  try_except_cases call_def reading_def emit_def raise_def






lemma embedding_setup_propagates:
  assumes "raised s = None" and "raises ev Call_SentenceTransformerEmbedder = None"
    and "raises ev Call_get_embedding_dimension = Some e" and "\<not> is_Exception (exc_cls e)"
    and "dimension_unset s"
  shows "raised (embedding_setup ev s) = Some e"
    and "emb_dim (embedding_setup ev s) = None"
  using assms
  by (simp_all add: embedding_setup_simps dimension_unset_def)











section \<open>The server and the engine\<close>

lemma startup_upto_10_eq:
  "startup_upto 10 ev = block [imports_section ev, configuration ev, ensure_dependencies,
     read_input ev, parser_section, splitter_section ev, embedding_setup ev, knn_setup ev,
     prepare_docs ev, build_store ev] init"
  by (simp add: startup_upto_def script_def)

lemma script_not_serving:
  "list_all (preserves not_serving)
     [imports_section ev, configuration ev, ensure_dependencies, read_input ev,
      parser_section, splitter_section ev, embedding_setup ev, knn_setup ev,
      prepare_docs ev, build_store ev]"
  unfolding section_defs
  by (intro preserves_intros; simp add: preserves_def not_serving_def raise_def emit_def)

lemma startup_upto_10_not_serving: "not_serving (startup_upto 10 ev)"
proof -
  have "not_serving init"
    by (simp add: not_serving_def init_def)
  with script_not_serving show ?thesis
    unfolding startup_upto_10_eq by (rule preserves_blockD)
qed

lemma startup_upto_10:
  "startup_upto 10 ev = (if raised (startup_upto 9 ev) = None
     then build_store ev (startup_upto 9 ev) else startup_upto 9 ev)"
  using startup_upto_Suc [of 9 ev] by (simp add: length_script) (simp add: script_def)

lemma build_store_bound:
  assumes "raised s = None" and "raised (build_store ev s) = None"
  shows "document_store (build_store ev s) \<noteq> None"
  using assms
  by (cases "docs_for_store s"; cases "knn_factory s"; cases "raises ev Call_DocumentStore")
    (simp_all add: build_store_def block_Cons_cases block.simps(1) reading_def call_def raise_def
      emit_def)

lemma startup_upto_10_store:
  assumes "raised (startup_upto 10 ev) = None"
  shows "document_store (startup_upto 10 ev) \<noteq> None"
proof (cases "raised (startup_upto 9 ev)")
  case None
  then have eq: "startup_upto 10 ev = build_store ev (startup_upto 9 ev)"
    by (simp add: startup_upto_10)
  with assms have "raised (build_store ev (startup_upto 9 ev)) = None"
    by simp
  with None show ?thesis
    unfolding eq by (rule build_store_bound)
next
  case (Some e)
  then have "startup_upto 10 ev = startup_upto 9 ev"
    by (simp add: startup_upto_10)
  with assms Some show ?thesis by simp
qed

lemmas start_server_simps = start_server_def block_Cons_cases block.simps(1) try_except_cases
  call_def reading_def emit_def raise_def not_serving_def

lemma start_server_run_fails:
  assumes "raised s = None" and "document_store s = Some ds" and "not_serving s"
    and "raises ev Call_DocumentStoreServer = None"
    and "raises ev Call_server_run = Some e" and "\<not> is_TypeError (exc_cls e)"
  shows "raised (start_server ev s) = Some e"
    and "\<not> engine_started (start_server ev s)"
    and "served (start_server ev s) = None"
  using assms by (simp_all add: start_server_simps)

lemma start_server_serve_fails:
  assumes "raised s = None" and "document_store s = Some ds" and "not_serving s"
    and "raises ev Call_DocumentStoreServer = None"
    and "raises ev Call_server_run = Some e" and "is_TypeError (exc_cls e)"
    and "raises ev Call_server_serve = Some e'" and "is_Exception (exc_cls e')"
  shows "raised (start_server ev s) = None"
    and "\<not> engine_started (start_server ev s)"
    and "served (start_server ev s) = None"
    and "LogRecord PathwayRag WARNING ''server.run/serve failed: {err}'' [AExc e']
           \<in> set (log_records (start_server ev s))"
  using assms by (simp_all add: start_server_simps)

lemma start_server_serve_propagates:
  assumes "raised s = None" and "document_store s = Some ds" and "not_serving s"
    and "raises ev Call_DocumentStoreServer = None"
    and "raises ev Call_server_run = Some e" and "is_TypeError (exc_cls e)"
    and "raises ev Call_server_serve = Some e'" and "\<not> is_Exception (exc_cls e')"
  shows "raised (start_server ev s) = Some e'"
    and "\<not> engine_started (start_server ev s)"
    and "served (start_server ev s) = None"
  using assms by (simp_all add: start_server_simps)

lemma start_engine_facts:
  assumes "raised s = None" and "\<not> engine_started s"
  shows "raised (start_engine ev s) = raises ev Call_pw_run"
    and "engine_started (start_engine ev s) = (raises ev Call_pw_run = None)"
    and "served (start_engine ev s) = served s"
    and "x \<in> set (log_records s) \<Longrightarrow> x \<in> set (log_records (start_engine ev s))"
  using assms
  by (cases "raises ev Call_pw_run";
      simp add: start_engine_def block_Cons_cases block.simps(1) call_def emit_def raise_def)+

lemma startup_env_serve_fails:
  "raised (startup env_serve_fails) = None"
  "engine_started (startup env_serve_fails)"
  "served (startup env_serve_fails) = None"
  unfolding startup_def script_def section_defs
  by (simp_all add: stmt_defs env_serve_fails_def sample_defs Let_def block.simps
      is_TypeError_def)

section \<open>A server that cannot start (claim C3)\<close>

text \<open>
  C3, as stated, fails on the code. When \<open>server.run\<close> raises TypeError, line 183 calls
  \<open>server.serve\<close>, and line 184 catches whatever exception of class \<open>Exception\<close> that call
  raises: with \<open>serve\<close> failing to bind the address (OSError), startup logs a warning, goes
  on to \<open>pw.run()\<close> and ends with no exception and no server started.
\<close>

theorem C3_counterexample:
  "raises env_serve_fails Call_server_run =
     Some (Exc TypeError ''run() got an unexpected keyword argument threaded'')
   \<and> raises env_serve_fails Call_server_serve =
     Some (Exc OSError ''[Errno 98] Address already in use'')
   \<and> raised (startup env_serve_fails) = None
   \<and> engine_started (startup env_serve_fails)
   \<and> served (startup env_serve_fails) = None"
  using startup_env_serve_fails by (simp add: env_serve_fails_def)

text \<open>
  C3, amended. Let the script have come to line 176 without an exception, and let the
  constructor of the server return. If \<open>server.run\<close> raises an exception that is not a
  TypeError (a failure to bind the address, say), the failure is fatal: startup ends with
  that exception and \<open>pw.run()\<close> is not called. If \<open>server.run\<close> raises TypeError,
  \<open>server.serve\<close> is called instead; an exception of class \<open>Exception\<close> that \<open>serve\<close>
  raises (a failure to bind included) is only logged as a warning, and startup goes on to
  \<open>pw.run()\<close> with no server started; an exception outside class \<open>Exception\<close> that \<open>serve\<close>
  raises ends startup.
\<close>

theorem C3_server_failure:
  assumes "raised (startup_upto 10 ev) = None" and "raises ev Call_DocumentStoreServer = None"
  shows "(raises ev Call_server_run = Some e \<and> \<not> is_TypeError (exc_cls e) \<longrightarrow>
            raised (startup ev) = Some e \<and> \<not> engine_started (startup ev))
       \<and> (raises ev Call_server_run = Some e \<and> is_TypeError (exc_cls e)
            \<and> raises ev Call_server_serve = Some e' \<and> is_Exception (exc_cls e') \<longrightarrow>
            served (startup ev) = None
            \<and> raised (startup ev) = raises ev Call_pw_run
            \<and> engine_started (startup ev) = (raises ev Call_pw_run = None)
            \<and> LogRecord PathwayRag WARNING ''server.run/serve failed: {err}'' [AExc e']
                 \<in> set (log_records (startup ev)))
       \<and> (raises ev Call_server_run = Some e \<and> is_TypeError (exc_cls e)
            \<and> raises ev Call_server_serve = Some e' \<and> \<not> is_Exception (exc_cls e') \<longrightarrow>
            raised (startup ev) = Some e' \<and> \<not> engine_started (startup ev))"
proof -
  let ?s = "startup_upto 10 ev"
  from assms(1) obtain ds where ds: "document_store ?s = Some ds"
    using startup_upto_10_store [of ev] by auto
  note ns = startup_upto_10_not_serving [of ev]
  have s11: "startup_upto 11 ev = start_server ev ?s"
    using assms(1) by (simp add: startup_upto_11)
  have 1: "raised (startup ev) = Some e \<and> \<not> engine_started (startup ev)"
    if "raises ev Call_server_run = Some e \<and> \<not> is_TypeError (exc_cls e)"
  proof -
    from that have run: "raises ev Call_server_run = Some e" and nt: "\<not> is_TypeError (exc_cls e)"
      by simp_all
    note f = start_server_run_fails [OF assms(1) ds ns assms(2) run nt]
    have "startup ev = startup_upto 11 ev"
      using f(1) by (simp add: startup_upto_12 s11)
    then show ?thesis
      using f by (simp add: s11)
  qed
  have 2: "served (startup ev) = None
      \<and> raised (startup ev) = raises ev Call_pw_run
      \<and> engine_started (startup ev) = (raises ev Call_pw_run = None)
      \<and> LogRecord PathwayRag WARNING ''server.run/serve failed: {err}'' [AExc e']
           \<in> set (log_records (startup ev))"
    if "raises ev Call_server_run = Some e \<and> is_TypeError (exc_cls e)
        \<and> raises ev Call_server_serve = Some e' \<and> is_Exception (exc_cls e')"
  proof -
    from that have run: "raises ev Call_server_run = Some e" and t: "is_TypeError (exc_cls e)"
      and serve: "raises ev Call_server_serve = Some e'" and ex: "is_Exception (exc_cls e')"
      by simp_all
    note f = start_server_serve_fails [OF assms(1) ds ns assms(2) run t serve ex]
    note g = start_engine_facts [OF f(1) f(2), where ev = ev]
    have "startup ev = start_engine ev (start_server ev ?s)"
      using f(1) by (simp add: startup_upto_12 s11)
    then show ?thesis
      using g(1,2,3) g(4) [OF f(4)] f(3) by simp
  qed
  have 3: "raised (startup ev) = Some e' \<and> \<not> engine_started (startup ev)"
    if "raises ev Call_server_run = Some e \<and> is_TypeError (exc_cls e)
        \<and> raises ev Call_server_serve = Some e' \<and> \<not> is_Exception (exc_cls e')"
  proof -
    from that have run: "raises ev Call_server_run = Some e" and t: "is_TypeError (exc_cls e)"
      and serve: "raises ev Call_server_serve = Some e'" and ex: "\<not> is_Exception (exc_cls e')"
      by simp_all
    note f = start_server_serve_propagates [OF assms(1) ds ns assms(2) run t serve ex]
    have "startup ev = startup_upto 11 ev"
      using f(1) by (simp add: startup_upto_12 s11)
    then show ?thesis
      using f by (simp add: s11)
  qed
  from 1 2 3 show ?thesis by blast
qed

lemma startup_upto_10_env_run_fails: "raised (startup_upto 10 env_run_fails) = None"
  unfolding startup_upto_10_eq section_defs
  by (simp add: stmt_defs env_run_fails_def sample_defs Let_def block.simps)

lemma startup_upto_10_env_serve_fails: "raised (startup_upto 10 env_serve_fails) = None"
  unfolding startup_upto_10_eq section_defs
  by (simp add: stmt_defs env_serve_fails_def sample_defs Let_def block.simps)

lemma startup_upto_10_env_serve_interrupted:
  "raised (startup_upto 10 env_serve_interrupted) = None"
  unfolding startup_upto_10_eq section_defs
  by (simp add: stmt_defs env_serve_interrupted_def sample_defs Let_def block.simps)

theorem C3_server_failure_witness:
  "raised (startup_upto 10 env_run_fails) = None
   \<and> raises env_run_fails Call_DocumentStoreServer = None
   \<and> raises env_run_fails Call_server_run = Some (Exc OSError ''[Errno 98] Address already in use'')
   \<and> \<not> is_TypeError OSError
   \<and> raised (startup env_run_fails) = Some (Exc OSError ''[Errno 98] Address already in use'')
   \<and> \<not> engine_started (startup env_run_fails)
   \<and> raised (startup_upto 10 env_serve_fails) = None
   \<and> raises env_serve_fails Call_DocumentStoreServer = None
   \<and> raises env_serve_fails Call_server_run =
        Some (Exc TypeError ''run() got an unexpected keyword argument threaded'')
   \<and> is_TypeError TypeError
   \<and> raises env_serve_fails Call_server_serve =
        Some (Exc OSError ''[Errno 98] Address already in use'')
   \<and> is_Exception OSError
   \<and> served (startup env_serve_fails) = None
   \<and> raised (startup env_serve_fails) = None
   \<and> engine_started (startup env_serve_fails)
   \<and> raised (startup_upto 10 env_serve_interrupted) = None
   \<and> raises env_serve_interrupted Call_server_serve = Some (Exc KeyboardInterrupt [])
   \<and> \<not> is_Exception KeyboardInterrupt
   \<and> raised (startup env_serve_interrupted) = Some (Exc KeyboardInterrupt [])
   \<and> \<not> engine_started (startup env_serve_interrupted)"
  using C3_server_failure [of env_run_fails "Exc OSError ''[Errno 98] Address already in use''"
      "Exc OSError []"]
    C3_server_failure [of env_serve_fails
      "Exc TypeError ''run() got an unexpected keyword argument threaded''"
      "Exc OSError ''[Errno 98] Address already in use''"]
    C3_server_failure [of env_serve_interrupted
      "Exc TypeError ''run() got an unexpected keyword argument threaded''"
      "Exc KeyboardInterrupt []"]
    startup_upto_10_env_run_fails startup_upto_10_env_serve_fails
    startup_upto_10_env_serve_interrupted
  by (simp add: env_run_fails_def env_serve_fails_def env_serve_interrupted_def env_ok_def
      is_TypeError_def)

section \<open>The splitter section\<close>

lemma startup_upto_6:
  "startup_upto 6 ev = (if raised (startup_upto 5 ev) = None
     then splitter_section ev (startup_upto 5 ev) else startup_upto 5 ev)"
  using startup_upto_Suc [of 5 ev] by (simp add: length_script) (simp add: script_def)

lemma startup_from_6:
  "startup ev = (if raised (startup_upto 6 ev) = None
     then block [embedding_setup ev, knn_setup ev, prepare_docs ev, build_store ev,
            start_server ev, start_engine ev] (startup_upto 6 ev)
     else startup_upto 6 ev)"
  using startup_split [of ev 6] by (simp add: script_def)

lemmas splitter_section_simps = splitter_section_def splitter_try_def splitter_except_def
  cond_def block_Cons_cases block.simps(1) try_except_cases call_def reading_def emit_def
  raise_def

lemma splitter_section_absent:
  assumes "raised s = None" and "\<not> TokenCountSplitter s"
  shows "raised (splitter_section ev s) = None"
    and "chunks (splitter_section ev s) = chunks s"
  using assms by (simp_all add: splitter_section_def cond_def emit_def)

lemma splitter_section_constructor_raises:
  assumes "raised s = None" and "TokenCountSplitter s"
    and "documents s = Some d" and "chunks s = Some d"
    and "raises ev Call_TokenCountSplitter = Some e"
  shows "raised (splitter_section ev s) = (if is_Exception (exc_cls e) then None else Some e)"
    and "chunks (splitter_section ev s) = Some d"
  using assms by (simp_all add: splitter_section_simps)

lemma splitter_section_select_raises:
  assumes "raised s = None" and "TokenCountSplitter s"
    and "documents s = Some d" and "chunks s = Some d"
    and "raises ev Call_TokenCountSplitter = None"
    and "raises ev Call_select_split = Some e"
  shows "raised (splitter_section ev s) = (if is_Exception (exc_cls e) then None else Some e)"
    and "chunks (splitter_section ev s) = Some d"
  using assms by (simp_all add: splitter_section_simps)

lemma splitter_section_flatten_raises:
  assumes "raised s = None" and "TokenCountSplitter s"
    and "documents s = Some d" and "chunks s = Some d"
    and "raises ev Call_TokenCountSplitter = None"
    and "raises ev Call_select_split = None"
    and "raises ev Call_flatten = Some e"
  shows "raised (splitter_section ev s) = (if is_Exception (exc_cls e) then None else Some e)"
    and "chunks (splitter_section ev s) = Some d"
  using assms by (simp_all add: splitter_section_simps)

lemma splitter_section_chunks_raises:
  assumes "raised s = None" and "TokenCountSplitter s"
    and "documents s = Some d" and "chunks s = Some d"
    and "raises ev Call_TokenCountSplitter = None"
    and "raises ev Call_select_split = None"
    and "raises ev Call_flatten = None"
    and "raises ev Call_select_chunks = Some e"
  shows "raised (splitter_section ev s) = (if is_Exception (exc_cls e) then None else Some e)"
    and "chunks (splitter_section ev s) = Some d"
  using assms by (simp_all add: splitter_section_simps)

lemma splitter_section_applied:
  assumes "raised s = None" and "TokenCountSplitter s"
    and "documents s = Some d" and "chunks s = Some d"
    and "splitter_failure ev = None"
  shows "raised (splitter_section ev s) = None"
    and "chunks (splitter_section ev s) = Some (pw_select chunk_columns
           (pw_flatten ''chunk'' (pw_select (split_columns ev splitter_built) d)))"
proof -
  from assms(5) have n: "raises ev Call_TokenCountSplitter = None"
    "raises ev Call_select_split = None" "raises ev Call_flatten = None"
    "raises ev Call_select_chunks = None"
    by (simp_all add: splitter_failure_def split: option.splits)
  show "raised (splitter_section ev s) = None"
    using assms(1-4) n by (simp add: splitter_section_simps)
  show "chunks (splitter_section ev s) = Some (pw_select chunk_columns
           (pw_flatten ''chunk'' (pw_select (split_columns ev splitter_built) d)))"
    using assms(1-4) n by (simp add: splitter_section_simps splitter_built_def)
qed

lemma splitter_section_failure:
  assumes "raised s = None" and "TokenCountSplitter s"
    and "documents s = Some d" and "chunks s = Some d"
    and "splitter_failure ev = Some e"
  shows "raised (splitter_section ev s) = (if is_Exception (exc_cls e) then None else Some e)"
    and "chunks (splitter_section ev s) = Some d"
proof -
  note a = assms(1-4)
  have "raised (splitter_section ev s) = (if is_Exception (exc_cls e) then None else Some e)
      \<and> chunks (splitter_section ev s) = Some d"
  proof (cases "raises ev Call_TokenCountSplitter")
    case (Some x)
    with assms(5) have "x = e" by (simp add: splitter_failure_def)
    with Some show ?thesis
      using splitter_section_constructor_raises [OF a, of ev e] by simp
  next
    case n1: None
    show ?thesis
    proof (cases "raises ev Call_select_split")
      case (Some x)
      with assms(5) n1 have "x = e" by (simp add: splitter_failure_def)
      with Some show ?thesis
        using splitter_section_select_raises [OF a n1, of e] by simp
    next
      case n2: None
      show ?thesis
      proof (cases "raises ev Call_flatten")
        case (Some x)
        with assms(5) n1 n2 have "x = e" by (simp add: splitter_failure_def)
        with Some show ?thesis
          using splitter_section_flatten_raises [OF a n1 n2, of e] by simp
      next
        case n3: None
        with assms(5) n1 n2 have "raises ev Call_select_chunks = Some e"
          by (simp add: splitter_failure_def)
        then show ?thesis
          using splitter_section_chunks_raises [OF a n1 n2 n3, of e] by simp
      qed
    qed
  qed
  then show "raised (splitter_section ev s) = (if is_Exception (exc_cls e) then None else Some e)"
    and "chunks (splitter_section ev s) = Some d"
    by simp_all
qed

lemma tail_chunks:
  "list_all (preserves (\<lambda>s. chunks s = Some c))
     [embedding_setup ev, knn_setup ev, prepare_docs ev, build_store ev,
      start_server ev, start_engine ev]"
  unfolding section_defs
  by (intro preserves_intros; simp add: preserves_def raise_def emit_def)

lemma chunks_kept:
  assumes "chunks (startup_upto 6 ev) = Some c"
  shows "chunks (startup ev) = Some c"
proof (cases "raised (startup_upto 6 ev)")
  case None
  then have "startup ev = block [embedding_setup ev, knn_setup ev, prepare_docs ev,
      build_store ev, start_server ev, start_engine ev] (startup_upto 6 ev)"
    by (simp add: startup_from_6)
  then show ?thesis
    using preserves_blockD [OF tail_chunks assms] by simp
next
  case (Some e)
  then have "startup ev = startup_upto 6 ev"
    by (rule startup_aborted)
  with assms show ?thesis by simp
qed

lemma startup_upto_6_fallback:
  assumes "reaches_parser ev"
    and "\<not> import_TokenCountSplitter ev
         \<or> (splitter_failure ev = Some e \<and> is_Exception (exc_cls e))"
  shows "raised (startup_upto 6 ev) = None"
    and "chunks (startup_upto 6 ev) = Some (documents_table ev)"
proof -
  note r = startup_upto_5_reached [OF assms(1)]
  have eq: "startup_upto 6 ev = splitter_section ev (startup_upto 5 ev)"
    using r(1) by (simp add: startup_upto_6)
  have "raised (startup_upto 6 ev) = None
    \<and> chunks (startup_upto 6 ev) = Some (documents_table ev)"
  proof (cases "import_TokenCountSplitter ev")
    case False
    then have "\<not> TokenCountSplitter (startup_upto 5 ev)"
      using r(4) by simp
    from splitter_section_absent [OF r(1) this, of ev] show ?thesis
      using r(3) by (simp add: eq)
  next
    case True
    then have t: "TokenCountSplitter (startup_upto 5 ev)"
      using r(4) by simp
    from True assms(2) have f: "splitter_failure ev = Some e" and ex: "is_Exception (exc_cls e)"
      by simp_all
    from splitter_section_failure [OF r(1) t r(2) r(3) f] ex show ?thesis
      by (simp add: eq)
  qed
  then show "raised (startup_upto 6 ev) = None"
    and "chunks (startup_upto 6 ev) = Some (documents_table ev)"
    by simp_all
qed

lemma reaches_parser_env_no_splitter: "reaches_parser env_no_splitter"
  by (simp add: reaches_parser_def env_no_splitter_def env_ok_def getenv_def int_sample_def)

lemma reaches_parser_env_splitter_fails: "reaches_parser env_splitter_fails"
  by (simp add: reaches_parser_def env_splitter_fails_def env_ok_def getenv_def int_sample_def)

section \<open>Chunking without the splitter (claim C2)\<close>

text \<open>
  C2: let the script have come to line 91 (the port parses, the embedder imports, the
  reader and the documents table are built). If \<open>TokenCountSplitter\<close> could not be imported,
  or if one of the calls of lines 94 to 107 that build the split raises an exception of
  class \<open>Exception\<close>, then the splitter section ends without an exception and \<open>chunks\<close> is
  the documents table, at the end of that section and at the end of startup. So every
  record whose body normalizes to a text yields exactly one chunk row, carrying that whole
  text.
\<close>

theorem C2_fallback_single_chunk:
  assumes "reaches_parser ev"
    and "\<not> import_TokenCountSplitter ev
         \<or> (splitter_failure ev = Some e \<and> is_Exception (exc_cls e))"
  shows "raised (startup_upto 6 ev) = None
    \<and> chunks (startup_upto 6 ev) = Some (documents_table ev)
    \<and> chunks (startup ev) = Some (documents_table ev)
    \<and> (extract_body b = Inr t \<longrightarrow>
         derive (documents_table ev) [(''headline'', h), (''body'', b)] =
           Inr [[(''text'', t), (''headline'', h)]])"
proof (intro conjI impI)
  show "raised (startup_upto 6 ev) = None"
    using assms by (rule startup_upto_6_fallback)
  show c: "chunks (startup_upto 6 ev) = Some (documents_table ev)"
    using assms by (rule startup_upto_6_fallback)
  from c show "chunks (startup ev) = Some (documents_table ev)"
    by (rule chunks_kept)
next
  assume "extract_body b = Inr t"
  then show "derive (documents_table ev) [(''headline'', h), (''body'', b)] =
      Inr [[(''text'', t), (''headline'', h)]]"
    by (simp add: derive_documents_table)
qed

theorem C2_fallback_single_chunk_witness:
  "reaches_parser env_no_splitter \<and> \<not> import_TokenCountSplitter env_no_splitter
   \<and> raised (startup_upto 6 env_no_splitter) = None
   \<and> chunks (startup env_no_splitter) = Some (documents_table env_no_splitter)
   \<and> derive (documents_table env_no_splitter)
        [(''headline'', Str ''A''), (''body'', Str ''short text'')] =
        Inr [[(''text'', Str ''short text''), (''headline'', Str ''A'')]]
   \<and> reaches_parser env_splitter_fails
   \<and> splitter_failure env_splitter_fails =
        Some (Exc ValueError ''splitter cannot be applied to this column'')
   \<and> is_Exception ValueError
   \<and> raised (startup_upto 6 env_splitter_fails) = None
   \<and> chunks (startup env_splitter_fails) = Some (documents_table env_splitter_fails)
   \<and> derive (documents_table env_splitter_fails)
        [(''headline'', Str ''A''), (''body'', Str ''short text'')] =
        Inr [[(''text'', Str ''short text''), (''headline'', Str ''A'')]]"
  using C2_fallback_single_chunk [of env_no_splitter "Exc ValueError []" "Str ''short text''"
      "Str ''short text''" "Str ''A''"]
    C2_fallback_single_chunk [of env_splitter_fails
      "Exc ValueError ''splitter cannot be applied to this column''" "Str ''short text''"
      "Str ''short text''" "Str ''A''"]
    reaches_parser_env_no_splitter reaches_parser_env_splitter_fails
  by (simp add: env_no_splitter_def env_splitter_fails_def env_ok_def splitter_failure_def)

section \<open>Rows of the tables\<close>

lemma map_rows_mem:
  "map_rows f rs = Inr out \<Longrightarrow> x \<in> set out \<Longrightarrow> \<exists>r\<in>set rs. \<exists>ys. f r = Inr ys \<and> x \<in> set ys"
proof (induction rs arbitrary: out)
  case Nil
  then show ?case by simp
next
  case (Cons r rs)
  then show ?case by (auto split: sum.splits)
qed

lemma pw_select_mem:
  assumes "derive (pw_select cs t) src = Inr out" and "x \<in> set out"
  shows "\<exists>rs r. derive t src = Inr rs \<and> r \<in> set rs \<and> eval_cols cs r = Inr x"
proof (cases "derive t src")
  case (Inl e)
  with assms(1) show ?thesis by (simp add: pw_select_def)
next
  case (Inr rs)
  with assms(1)
  have "map_rows (\<lambda>r. case eval_cols cs r of Inl x \<Rightarrow> Inl x | Inr r' \<Rightarrow> Inr [r']) rs = Inr out"
    by (simp add: pw_select_def)
  from map_rows_mem [OF this assms(2)] obtain r ys where "r \<in> set rs"
    and "(case eval_cols cs r of Inl x \<Rightarrow> Inl x | Inr r' \<Rightarrow> Inr [r']) = Inr ys" and "x \<in> set ys"
    by blast
  then have "r \<in> set rs \<and> eval_cols cs r = Inr x"
    by (auto split: sum.splits)
  with Inr show ?thesis by blast
qed

lemma pw_flatten_mem:
  assumes "derive (pw_flatten c t) src = Inr out" and "x \<in> set out"
  shows "\<exists>rs r ys. derive t src = Inr rs \<and> r \<in> set rs \<and> flatten_row c r = Inr ys \<and> x \<in> set ys"
proof (cases "derive t src")
  case (Inl e)
  with assms(1) show ?thesis by (simp add: pw_flatten_def)
next
  case (Inr rs)
  with assms(1) have "map_rows (flatten_row c) rs = Inr out"
    by (simp add: pw_flatten_def)
  from map_rows_mem [OF this assms(2)] Inr show ?thesis by blast
qed

lemma documents_rows:
  assumes "derive (documents_table ev) [(''headline'', h), (''body'', b)] = Inr rows"
    and "row \<in> set rows"
  shows "\<exists>t. row = [(''text'', t), (''headline'', h)]"
  using assms by (auto simp: derive_documents_table split: sum.splits)

lemma split_columns_row:
  assumes "eval_cols (split_columns ev sp) [(''text'', t), (''headline'', h)] = Inr r"
  shows "\<exists>v. r = [(''chunk'', v), (''headline'', h)]"
  using assms
  by (auto simp: split_columns_def pw_apply_def pw_this_def split: sum.splits)

lemma flatten_chunk_row:
  assumes "flatten_row ''chunk'' [(''chunk'', v), (''headline'', h)] = Inr ys" and "r \<in> set ys"
  shows "\<exists>y. r = [(''chunk'', y), (''headline'', h)]"
  using assms by (cases v) (auto simp: flatten_row_def)

lemma chunk_columns_row:
  assumes "eval_cols chunk_columns [(''chunk'', y), (''headline'', h)] = Inr r"
  shows "\<exists>t. r = [(''text'', t), (''headline'', h)]"
  using assms
  by (auto simp: chunk_columns_def pw_apply_def pw_this_def split: sum.splits)

lemma split_rows:
  assumes "derive (split_table ev) [(''headline'', h), (''body'', b)] = Inr rows"
    and "row \<in> set rows"
  shows "\<exists>t. row = [(''text'', t), (''headline'', h)]"
proof -
  let ?src = "[(''headline'', h), (''body'', b)]"
  let ?W = "pw_select (split_columns ev splitter_built) (documents_table ev)"
  from assms obtain rs3 r3 where 3: "derive (pw_flatten ''chunk'' ?W) ?src = Inr rs3"
    "r3 \<in> set rs3" "eval_cols chunk_columns r3 = Inr row"
    unfolding split_table_def using pw_select_mem by blast
  from 3(1,2) obtain rs2 r2 ys where 2: "derive ?W ?src = Inr rs2" "r2 \<in> set rs2"
    "flatten_row ''chunk'' r2 = Inr ys" "r3 \<in> set ys"
    using pw_flatten_mem by blast
  from 2(1,2) obtain rs1 r1 where 1: "derive (documents_table ev) ?src = Inr rs1"
    "r1 \<in> set rs1" "eval_cols (split_columns ev splitter_built) r1 = Inr r2"
    using pw_select_mem by blast
  from 1(1,2) obtain t where "r1 = [(''text'', t), (''headline'', h)]"
    using documents_rows by blast
  with 1(3) obtain v where "r2 = [(''chunk'', v), (''headline'', h)]"
    using split_columns_row by blast
  with 2(3,4) obtain y where "r3 = [(''chunk'', y), (''headline'', h)]"
    using flatten_chunk_row by blast
  with 3(3) show ?thesis
    using chunk_columns_row by blast
qed

lemma docs_columns_row:
  assumes "eval_cols (docs_columns ev) [(''text'', t), (''headline'', h)] = Inr r"
  shows "\<exists>m. make_metadata (repr_builtin ev) h = Inr m \<and> map_of r ''_metadata'' = Some m"
  using assms
  by (auto simp: docs_columns_def pw_apply_def pw_this_def split: sum.splits)

lemma docs_rows:
  assumes "c = documents_table ev \<or> c = split_table ev"
    and "derive (pw_select (docs_columns ev) c) [(''headline'', h), (''body'', b)] = Inr rows"
    and "row \<in> set rows"
  shows "\<exists>m. make_metadata (repr_builtin ev) h = Inr m \<and> map_of row ''_metadata'' = Some m"
proof -
  from assms(2,3) obtain rs r where r: "derive c [(''headline'', h), (''body'', b)] = Inr rs"
    "r \<in> set rs" "eval_cols (docs_columns ev) r = Inr row"
    using pw_select_mem by blast
  from assms(1) r(1,2) obtain t where "r = [(''text'', t), (''headline'', h)]"
    using documents_rows split_rows by blast
  with r(3) show ?thesis
    using docs_columns_row by blast
qed

section \<open>The table handed to the document store\<close>

lemma startup_upto_le:
  assumes "n \<le> m"
  shows "startup_upto m ev =
    (if raised (startup_upto n ev) = None
     then block (drop n (take m (script ev))) (startup_upto n ev)
     else startup_upto n ev)"
proof -
  have "take m (script ev) = take n (script ev) @ drop n (take m (script ev))"
    using assms append_take_drop_id [of n "take m (script ev)"] by (simp add: min_absorb1)
  then have "block (take m (script ev)) init =
      block (take n (script ev) @ drop n (take m (script ev))) init"
    by simp
  then show ?thesis
    using block_append [OF init_facts(1), of "take n (script ev)" "drop n (take m (script ev))"]
    by (simp add: startup_upto_def)
qed

lemma startup_upto_8_from_6:
  "startup_upto 8 ev = (if raised (startup_upto 6 ev) = None
     then block [embedding_setup ev, knn_setup ev] (startup_upto 6 ev)
     else startup_upto 6 ev)"
  using startup_upto_le [of 6 8 ev] by (simp add: script_def)

lemma startup_upto_9:
  "startup_upto 9 ev = (if raised (startup_upto 8 ev) = None
     then prepare_docs ev (startup_upto 8 ev) else startup_upto 8 ev)"
  using startup_upto_Suc [of 8 ev] by (simp add: length_script) (simp add: script_def)

lemma startup_from_9:
  "startup ev = (if raised (startup_upto 9 ev) = None
     then block [build_store ev, start_server ev, start_engine ev] (startup_upto 9 ev)
     else startup_upto 9 ev)"
  using startup_split [of ev 9] by (simp add: script_def)

lemma chunks_after_splitter:
  assumes "chunks (startup_upto 6 ev) = Some c"
  shows "c = documents_table ev \<or> c = split_table ev"
proof (cases "reaches_parser ev")
  case False
  note n = startup_upto_5_not_reached [OF False]
  from n(1) have "startup_upto 6 ev = startup_upto 5 ev"
    by (auto simp: startup_upto_6)
  with n(3) assms show ?thesis by simp
next
  case True
  note r = startup_upto_5_reached [OF True]
  have eq: "startup_upto 6 ev = splitter_section ev (startup_upto 5 ev)"
    using r(1) by (simp add: startup_upto_6)
  show ?thesis
  proof (cases "import_TokenCountSplitter ev")
    case False
    then have "\<not> TokenCountSplitter (startup_upto 5 ev)"
      using r(4) by simp
    from splitter_section_absent(2) [OF r(1) this, of ev] assms show ?thesis
      using r(3) by (simp add: eq)
  next
    case t: True
    then have t: "TokenCountSplitter (startup_upto 5 ev)"
      using r(4) by simp
    show ?thesis
    proof (cases "splitter_failure ev")
      case None
      from splitter_section_applied(2) [OF r(1) t r(2) r(3) None] assms show ?thesis
        by (simp add: eq split_table_def)
    next
      case (Some e)
      from splitter_section_failure(2) [OF r(1) t r(2) r(3) Some] assms show ?thesis
        by (simp add: eq)
    qed
  qed
qed

lemma embedding_knn_chunks:
  "list_all (preserves (\<lambda>s. chunks s = x)) [embedding_setup ev, knn_setup ev]"
  unfolding section_defs
  by (intro preserves_intros; simp add: preserves_def raise_def emit_def)

lemma chunks_before_docs:
  assumes "chunks (startup_upto 8 ev) = Some c"
  shows "c = documents_table ev \<or> c = split_table ev"
proof -
  have "chunks (startup_upto 8 ev) = chunks (startup_upto 6 ev)"
  proof (cases "raised (startup_upto 6 ev)")
    case None
    then have "startup_upto 8 ev = block [embedding_setup ev, knn_setup ev] (startup_upto 6 ev)"
      by (simp add: startup_upto_8_from_6)
    then show ?thesis
      using preserves_blockD [OF embedding_knn_chunks refl, where s = "startup_upto 6 ev"]
      by simp
  next
    case (Some e)
    then show ?thesis by (simp add: startup_upto_8_from_6)
  qed
  with assms show ?thesis
    using chunks_after_splitter by simp
qed

lemma script_no_docs:
  "list_all (preserves (\<lambda>s. docs_for_store s = None))
     [imports_section ev, configuration ev, ensure_dependencies, read_input ev,
      parser_section, splitter_section ev, embedding_setup ev, knn_setup ev]"
  unfolding section_defs
  by (intro preserves_intros; simp add: preserves_def raise_def emit_def)

lemma startup_upto_8_eq:
  "startup_upto 8 ev = block [imports_section ev, configuration ev, ensure_dependencies,
     read_input ev, parser_section, splitter_section ev, embedding_setup ev, knn_setup ev] init"
  by (simp add: startup_upto_def script_def)

lemma startup_upto_8_no_docs: "docs_for_store (startup_upto 8 ev) = None"
proof -
  have "docs_for_store init = None"
    by (simp add: init_def)
  with script_no_docs show ?thesis
    unfolding startup_upto_8_eq by (rule preserves_blockD)
qed

lemmas prepare_docs_simps = prepare_docs_def block_Cons_cases block.simps(1) try_except_cases
  call_def reading_def emit_def raise_def

lemma prepare_docs_no_chunks:
  assumes "raised s = None" and "chunks s = None" and "docs_for_store s = None"
  shows "raised (prepare_docs ev s) \<noteq> None"
    and "docs_for_store (prepare_docs ev s) = None"
  using assms by (simp_all add: prepare_docs_simps)

lemma prepare_docs_metadata:
  assumes "raised s = None" and "chunks s = Some c"
    and "raises ev Call_select_docs_metadata = None"
  shows "raised (prepare_docs ev s) = None"
    and "docs_for_store (prepare_docs ev s) = Some (pw_select (docs_columns ev) c)"
  using assms by (simp_all add: prepare_docs_simps)

lemma tail_docs:
  "list_all (preserves (\<lambda>s. docs_for_store s = x))
     [build_store ev, start_server ev, start_engine ev]"
  unfolding section_defs
  by (intro preserves_intros; simp add: preserves_def raise_def emit_def)

lemma docs_kept: "docs_for_store (startup ev) = docs_for_store (startup_upto 9 ev)"
proof (cases "raised (startup_upto 9 ev)")
  case None
  then have "startup ev =
      block [build_store ev, start_server ev, start_engine ev] (startup_upto 9 ev)"
    by (simp add: startup_from_9)
  then show ?thesis
    using preserves_blockD [OF tail_docs refl, where s = "startup_upto 9 ev"]
    by simp
next
  case (Some e)
  then show ?thesis by (simp add: startup_from_9)
qed

lemma docs_for_store_startup:
  assumes "raises ev Call_select_docs_metadata = None"
    and "docs_for_store (startup ev) = Some d"
  shows "\<exists>c. (c = documents_table ev \<or> c = split_table ev) \<and> d = pw_select (docs_columns ev) c"
proof -
  from assms(2) have d9: "docs_for_store (startup_upto 9 ev) = Some d"
    by (simp add: docs_kept)
  note n8 = startup_upto_8_no_docs [of ev]
  show ?thesis
  proof (cases "raised (startup_upto 8 ev)")
    case (Some e)
    then have "startup_upto 9 ev = startup_upto 8 ev"
      by (simp add: startup_upto_9)
    with d9 n8 show ?thesis by simp
  next
    case None
    then have eq: "startup_upto 9 ev = prepare_docs ev (startup_upto 8 ev)"
      by (simp add: startup_upto_9)
    show ?thesis
    proof (cases "chunks (startup_upto 8 ev)")
      case n: None
      from prepare_docs_no_chunks(2) [OF None n n8, of ev] d9 show ?thesis
        by (simp add: eq)
    next
      case (Some c)
      from prepare_docs_metadata(2) [OF None Some assms(1)] d9
      have "d = pw_select (docs_columns ev) c"
        by (simp add: eq)
      with chunks_before_docs [OF Some] show ?thesis by blast
    qed
  qed
qed

lemma startup_env_metadata_fails:
  "raised (startup env_metadata_fails) = None"
  "engine_started (startup env_metadata_fails)"
  "docs_for_store (startup env_metadata_fails) =
     Some (pw_select (data_only_columns env_metadata_fails) (split_table env_metadata_fails))"
  unfolding startup_def script_def section_defs
  by (simp_all add: stmt_defs env_metadata_fails_def sample_defs Let_def block.simps
      is_TypeError_def split_table_def documents_table_def splitter_built_def)

lemmas table_defs = pw_select_def pw_flatten_def flatten_row_def pw_apply_def pw_this_def
  stream_table_def documents_columns_def split_columns_def chunk_columns_def docs_columns_def
  data_only_columns_def split_table_def documents_table_def make_metadata_def

lemma rows_env_metadata_fails:
  "derive (pw_select (data_only_columns env_metadata_fails) (split_table env_metadata_fails))
     record_A = Inr [[(''data'', Str ''short text'')], [(''data'', Str ''short text'')]]"
  by (simp add: table_defs record_A_def env_metadata_fails_def env_ok_def split_sample_def)

section \<open>Metadata of the committed rows (claim C6)\<close>

text \<open>
  C6, as stated, fails on the code. When the select of line 146 cannot be built, the
  handler of line 154 builds the table from the \<open>data\<close> column alone: startup goes on to the
  end, and the rows handed to the document store for the record of Scenario A have no
  \<open>_metadata\<close> column, so they do not carry the headline.
\<close>

theorem C6_counterexample:
  "raises env_metadata_fails Call_select_docs_metadata =
     Some (Exc ValueError ''cannot build the metadata column'')
   \<and> raised (startup env_metadata_fails) = None
   \<and> engine_started (startup env_metadata_fails)
   \<and> record_A = [(''headline'', Str ''A''), (''body'', Str ''short text'')]
   \<and> committed_rows env_metadata_fails record_A =
       Some (Inr [[(''data'', Str ''short text'')], [(''data'', Str ''short text'')]])
   \<and> map_of [(''data'', Str ''short text'')] ''_metadata'' = None"
  using startup_env_metadata_fails rows_env_metadata_fails
  by (simp add: committed_rows_def env_metadata_fails_def record_A_def)

text \<open>
  C6, amended: when the select of line 146 is built without raising, every row that the
  table handed to the document store derives from a record carries, in its \<open>_metadata\<close>
  column, the dictionary \<open>{"headline": str(headline)}\<close> of that record, which for a
  headline that is a string is the headline unchanged. This holds whether the rows come
  from the token splitter or from the whole-body fallback.
\<close>

theorem C6_metadata_carried:
  assumes "raises ev Call_select_docs_metadata = None"
    and "committed_rows ev [(''headline'', h), (''body'', b)] = Some (Inr rows)"
    and "row \<in> set rows"
  shows "(\<exists>m. make_metadata (repr_builtin ev) h = Inr m \<and> map_of row ''_metadata'' = Some m)
    \<and> (h = Str t \<longrightarrow> map_of row ''_metadata'' = Some (Dict [(''headline'', Str t)]))"
proof -
  from assms(2) obtain d where d: "docs_for_store (startup ev) = Some d"
    and rows: "derive d [(''headline'', h), (''body'', b)] = Inr rows"
    by (auto simp: committed_rows_def split: option.splits)
  from docs_for_store_startup [OF assms(1) d] obtain c
    where c: "c = documents_table ev \<or> c = split_table ev"
      and dc: "d = pw_select (docs_columns ev) c"
    by blast
  from docs_rows [OF c rows [unfolded dc] assms(3)]
  obtain m where m: "make_metadata (repr_builtin ev) h = Inr m"
    "map_of row ''_metadata'' = Some m"
    by blast
  then show ?thesis
    by (auto simp: make_metadata_def)
qed

lemma startup_env_ok_docs:
  "docs_for_store (startup env_ok) = Some (pw_select (docs_columns env_ok) (split_table env_ok))"
  unfolding startup_def script_def section_defs
  by (simp add: stmt_defs sample_defs Let_def block.simps is_TypeError_def split_table_def
      documents_table_def splitter_built_def)

lemma rows_env_ok:
  "derive (pw_select (docs_columns env_ok) (split_table env_ok)) record_A =
     Inr [[(''data'', Str ''short text''), (''_metadata'', Dict [(''headline'', Str ''A'')])],
          [(''data'', Str ''short text''), (''_metadata'', Dict [(''headline'', Str ''A'')])]]"
  by (simp add: table_defs record_A_def env_ok_def split_sample_def)

lemma startup_env_no_splitter_docs:
  "docs_for_store (startup env_no_splitter) =
     Some (pw_select (docs_columns env_no_splitter) (documents_table env_no_splitter))"
  unfolding startup_def script_def section_defs
  by (simp add: stmt_defs env_no_splitter_def sample_defs Let_def block.simps is_TypeError_def
      documents_table_def)

lemma rows_env_no_splitter:
  "derive (pw_select (docs_columns env_no_splitter) (documents_table env_no_splitter)) record_A =
     Inr [[(''data'', Str ''short text''), (''_metadata'', Dict [(''headline'', Str ''A'')])]]"
  by (simp add: table_defs record_A_def env_no_splitter_def env_ok_def)

theorem C6_metadata_carried_witness:
  "raises env_ok Call_select_docs_metadata = None
   \<and> committed_rows env_ok [(''headline'', Str ''A''), (''body'', Str ''short text'')] =
       Some (Inr [[(''data'', Str ''short text''), (''_metadata'', Dict [(''headline'', Str ''A'')])],
                  [(''data'', Str ''short text''), (''_metadata'', Dict [(''headline'', Str ''A'')])]])
   \<and> map_of [(''data'', Str ''short text''), (''_metadata'', Dict [(''headline'', Str ''A'')])]
        ''_metadata'' = Some (Dict [(''headline'', Str ''A'')])
   \<and> raises env_no_splitter Call_select_docs_metadata = None
   \<and> committed_rows env_no_splitter [(''headline'', Str ''A''), (''body'', Str ''short text'')] =
       Some (Inr [[(''data'', Str ''short text''), (''_metadata'', Dict [(''headline'', Str ''A'')])]])"
  using C6_metadata_carried [of env_ok "Str ''A''" "Str ''short text''"
      "[[(''data'', Str ''short text''), (''_metadata'', Dict [(''headline'', Str ''A'')])],
        [(''data'', Str ''short text''), (''_metadata'', Dict [(''headline'', Str ''A'')])]]"
      "[(''data'', Str ''short text''), (''_metadata'', Dict [(''headline'', Str ''A'')])]" "''A''"]
    C6_metadata_carried [of env_no_splitter "Str ''A''" "Str ''short text''"
      "[[(''data'', Str ''short text''), (''_metadata'', Dict [(''headline'', Str ''A'')])]]"
      "[(''data'', Str ''short text''), (''_metadata'', Dict [(''headline'', Str ''A'')])]" "''A''"]
    startup_env_ok_docs rows_env_ok startup_env_no_splitter_docs rows_env_no_splitter
  by (simp add: committed_rows_def record_A_def env_no_splitter_def env_ok_def)

end
